theory Spec2Isabelle
  imports Main "HOL-Library.Word"
begin

unbundle bit_operations_syntax

section \<open>Go values\<close>

text \<open>
  A Go \<^verbatim>\<open>string\<close> is a byte sequence, here a \<^typ>\<open>string\<close>. A Go \<^verbatim>\<open>int\<close> is
  never computed with in this package, only stored, decoded and printed: it is an
  \<^typ>\<open>int\<close>. A \<^verbatim>\<open>float64\<close> is likewise only stored and encoded, so it is kept as
  its IEEE-754 bit pattern; the one thing the package's callees ask of it is
  whether it is NaN or an infinity (exponent bits all ones), which
  \<^verbatim>\<open>json.Marshal\<close> refuses to encode.
\<close>

type_synonym float64 = "64 word"

definition float_unsupported :: "float64 \<Rightarrow> bool" where
  "float_unsupported f = (drop_bit 52 f AND 0x7FF = 0x7FF)"

definition float_str :: "float64 \<Rightarrow> string" where
  "float_str f =
     (if f AND 0xFFFFFFFFFFFFF \<noteq> 0 then ''NaN''
      else if bit f 63 then ''-Inf'' else ''+Inf'')"

text \<open>
  A slice is its element sequence, except that Go tells the nil slice from an
  empty one (\<^verbatim>\<open>json.Marshal\<close> writes \<^verbatim>\<open>null\<close> for the first and \<^verbatim>\<open>[]\<close> for
  the second), so the model does too. \<^verbatim>\<open>append\<close> always yields a non-nil slice.
\<close>

datatype 'a slice = NilSlice | Slice "'a list"

fun elems :: "'a slice \<Rightarrow> 'a list" where
  "elems NilSlice = []"
| "elems (Slice xs) = xs"

definition append_slice :: "'a slice \<Rightarrow> 'a \<Rightarrow> 'a slice" where
  "append_slice s x = Slice (elems s @ [x])"

fun map_slice :: "('a \<Rightarrow> 'b) \<Rightarrow> 'a slice \<Rightarrow> 'b slice" where
  "map_slice f NilSlice = NilSlice"
| "map_slice f (Slice xs) = Slice (map f xs)"

text \<open>
  What a call does: it returns a value, returns a Go \<^verbatim>\<open>error\<close> (every error of
  this package is built by \<^verbatim>\<open>fmt.Errorf\<close>, so it is its message), or panics.
\<close>

datatype 'a result = Ok 'a | Err string | Panic

text \<open>\<^verbatim>\<open>%d\<close> of \<^verbatim>\<open>fmt\<close>: the decimal digits of an integer.\<close>

definition digit_char :: "nat \<Rightarrow> char" where
  "digit_char d = ''0123456789'' ! d"

function digits :: "nat \<Rightarrow> string" where
  "digits n = (if n < 10 then [digit_char n] else digits (n div 10) @ [digit_char (n mod 10)])"
  by pat_completeness auto
termination
  by (relation "measure id") auto

declare digits.simps [simp del]

definition itoa :: "int \<Rightarrow> string" where
  "itoa i = (if i < 0 then CHR ''-'' # digits (nat (- i)) else digits (nat i))"

section \<open>Constants\<close>

definition openIDConnect :: string where
  "openIDConnect = ''https://login.tonies.com/auth/realms/tonies/protocol/openid-connect/token''"

text \<open>The two format strings with \<^verbatim>\<open>%s\<close> are the functions \<^verbatim>\<open>fmt.Sprintf\<close> makes of them.\<close>

definition creativeTonies :: "string \<Rightarrow> string" where
  "creativeTonies hid = ''https://api.tonie.cloud/v2/households/'' @ hid @ ''/creativetonies''"

definition creativeTonie :: "string \<Rightarrow> string \<Rightarrow> string" where
  "creativeTonie hid tid =
     ''https://api.tonie.cloud/v2/households/'' @ hid @ ''/creativetonies/'' @ tid"

definition session :: string where
  "session = ''https://api.tonie.cloud/v2/sessions''"

definition me :: string where
  "me = ''https://api.tonie.cloud/v2/me''"

definition households :: string where
  "households = ''https://api.tonie.cloud/v2/households''"

definition fileUpload :: string where
  "fileUpload = ''https://api.tonie.cloud/v2/file''"

definition fileUploadAmazon :: string where
  "fileUploadAmazon = ''https://bxn-toniecloud-prod-upload.s3.amazonaws.com/''"

definition contentTypeJSON :: string where
  "contentTypeJSON = ''application/json''"

definition contentTypeForm :: string where
  "contentTypeForm = ''application/x-www-form-urlencoded''"

definition grantTypePassword :: string where
  "grantTypePassword = ''password''"

definition clientID :: string where
  "clientID = ''my-tonies''"

definition scopeOpenID :: string where
  "scopeOpenID = ''openid''"

section \<open>Types of the package\<close>

record JWTToken =
  AccessToken :: string
  ExpiresIn :: int
  RefreshToken :: string
  TokenType :: string
  Scope :: string

record Login =
  Email :: string
  Password :: string

record Me =
  Email :: string
  UUID :: string
  FirstName :: string
  LastName :: string
  Sex :: string
  AcceptedTermsOfUse :: bool
  Tracking :: bool
  AuthCode :: string
  ProfileImage :: string
  Verified :: bool
  EduUser :: bool
  NotificationCount :: int
  RequiresVerificationToUpload :: bool

record Household =
  ID :: string
  Name :: string
  Image :: string
  ForeignCreativeTonieContent :: bool
  Access :: string
  CanLeave :: bool
  OwnerName :: string

record Chapter =
  ID :: string
  File :: string
  Title :: string
  Seconds :: float64
  Transcoding :: bool

text \<open>
  A \<^verbatim>\<open>*requestHandler\<close> is an address in the store of handlers (below) or nil;
  a \<^verbatim>\<open>*Household\<close> is nil or the household it points to (the package never
  writes to a household).
\<close>

type_synonym rh_ref = nat

record CreativeTonie =
  ID :: string
  Name :: string
  Live :: bool
  Private :: bool
  ImageURL :: string
  TranscodingErrors :: "string slice"
  Transcoding :: bool
  SecondsPresent :: float64
  SecondsRemaining :: float64
  ChaptersPresent :: int
  ChaptersRemaining :: int
  Chapters :: "Chapter slice"
  HouseholdID :: string
  household :: "Household option"
  requestHandler :: "rh_ref option"

record FieldsBean =
  Key :: string
  Policy :: string
  XAmzAlgorithm :: string
  XAmzCredential :: string
  XAmzDate :: string
  XAmzSignature :: string
  XAmzSecurityToken :: string

record RequestBean =
  URL :: string
  Fields :: FieldsBean

record AmazonBean =
  FileID :: string
  Request :: RequestBean

record requestHandler =
  jwtToken :: "JWTToken option"

section \<open>Chapters of a Creative-Tonie (client.go)\<close>

text \<open>
  \<^verbatim>\<open>FindChapterByTitle\<close>: the loop over the indices of \<^verbatim>\<open>ct.Chapters\<close>, returning
  the first element whose title is the given one (the pointer \<^verbatim>\<open>&ct.Chapters[i]\<close>,
  here the chapter it points to), or nil.
\<close>

fun FindChapterByTitle_loop :: "Chapter list \<Rightarrow> string \<Rightarrow> Chapter option" where
  "FindChapterByTitle_loop [] title = None"
| "FindChapterByTitle_loop (c # cs) title =
     (if Title c = title then Some c else FindChapterByTitle_loop cs title)"

definition FindChapterByTitle :: "CreativeTonie \<Rightarrow> string \<Rightarrow> Chapter option" where
  "FindChapterByTitle ct title = FindChapterByTitle_loop (elems (Chapters ct)) title"

text \<open>
  \<^verbatim>\<open>DeleteChapter\<close>: \<^verbatim>\<open>newChapters\<close> starts as the nil slice and receives, in order,
  every chapter whose ID differs from \<^verbatim>\<open>chapter.ID\<close>. The argument is a pointer: when
  it is nil, reading \<^verbatim>\<open>chapter.ID\<close> in the first iteration panics (with no chapter
  there is no iteration).
\<close>

fun DeleteChapter_loop :: "Chapter list \<Rightarrow> Chapter \<Rightarrow> Chapter slice \<Rightarrow> Chapter slice" where
  "DeleteChapter_loop [] chapter newChapters = newChapters"
| "DeleteChapter_loop (c # cs) chapter newChapters =
     DeleteChapter_loop cs chapter
       (if Chapter.ID c \<noteq> Chapter.ID chapter then append_slice newChapters c else newChapters)"

definition DeleteChapter :: "CreativeTonie \<Rightarrow> Chapter option \<Rightarrow> CreativeTonie result" where
  "DeleteChapter ct chapter =
     (case chapter of
        None \<Rightarrow> (if elems (Chapters ct) = [] then Ok (ct\<lparr>Chapters := NilSlice\<rparr>) else Panic)
      | Some ch \<Rightarrow> Ok (ct\<lparr>Chapters := DeleteChapter_loop (elems (Chapters ct)) ch NilSlice\<rparr>))"

section \<open>The network, the file system and the library, as the package sees them\<close>

text \<open>
  An HTTP request as the package builds it: method, URL, the headers it sets (in
  the order of the \<^verbatim>\<open>Header.Set\<close> calls; no key is set twice) and the body. The
  byte encodings of \<^verbatim>\<open>url.Values.Encode\<close>, \<^verbatim>\<open>json.Marshal\<close> and
  \<^verbatim>\<open>multipart.Writer\<close> are the library's; a body is kept as the value they encode.
\<close>

datatype json =
    JNull
  | JBool bool
  | JInt int
  | JNumber float64
  | JString string
  | JArray "json list"
  | JObject "(string \<times> json) list"

datatype part =
    FormField string string
  | FormFile string string string

datatype body =
    NoBody
  | Bytes string
  | FormValues "(string \<times> string) list"
  | JSONBody json
  | Multipart "part list"

record request =
  Method :: string
  URL :: string
  Header :: "(string \<times> string) list"
  ReqBody :: body

record response =
  StatusCode :: int
  Body :: string

text \<open>
  Everything outside the package is a parameter: whether \<^verbatim>\<open>http.NewRequest\<close>
  rejects a method and URL; what \<^verbatim>\<open>client.Do\<close> answers to a request, given the
  requests sent before it (a transport error, or a response whose body is what
  \<^verbatim>\<open>io.ReadAll\<close> reads); what \<^verbatim>\<open>os.Open\<close> and then \<^verbatim>\<open>io.Copy\<close> give for a
  path; whether a call of the multipart writer fails, and its boundary; and what
  \<^verbatim>\<open>json.Decoder.Decode\<close> makes of a body, for each type the package decodes into.
  An error is its message.
\<close>

record env =
  http_NewRequest :: "string \<Rightarrow> string \<Rightarrow> string option"
  transport :: "request list \<Rightarrow> request \<Rightarrow> string + response"
  os_Open :: "string \<Rightarrow> string + (string + string)"
  multipart_WriteField :: "string \<Rightarrow> string option"
  multipart_CreateFormFile :: "string option"
  multipart_Close :: "string option"
  multipart_Boundary :: string
  decode_JWTToken :: "string \<Rightarrow> string + JWTToken"
  decode_Me :: "string \<Rightarrow> string + Me"
  decode_Households :: "string \<Rightarrow> string + Household slice"
  decode_CreativeTonies :: "string \<Rightarrow> string + CreativeTonie slice"
  decode_CreativeTonie :: "string \<Rightarrow> string + CreativeTonie"
  decode_AmazonBean :: "string \<Rightarrow> string + AmazonBean"

text \<open>
  The state the package works on: the request handlers, by address, and the
  requests sent so far (by any handler), in order.
\<close>

record world =
  handlers :: "rh_ref \<Rightarrow> requestHandler"
  sent :: "request list"

definition client_Do :: "env \<Rightarrow> request \<Rightarrow> world \<Rightarrow> (string + response) \<times> world" where
  "client_Do env req w = (transport env (sent w) req, w\<lparr>sent := sent w @ [req]\<rparr>)"

section \<open>json.Marshal of a Creative-Tonie\<close>

text \<open>
  \<^verbatim>\<open>json.Marshal\<close> writes the exported fields of a struct in declaration order
  under the names of their \<^verbatim>\<open>json\<close> tags, skips a field tagged \<^verbatim>\<open>"-"\<close> and every
  unexported field, writes a nil slice as \<^verbatim>\<open>null\<close>, and fails at the first
  \<^verbatim>\<open>float64\<close> that is NaN or infinite.
\<close>

definition marshal_float :: "float64 \<Rightarrow> string + json" where
  "marshal_float f =
     (if float_unsupported f then Inl (''json: unsupported value: '' @ float_str f)
      else Inr (JNumber f))"

definition marshal_Chapter :: "Chapter \<Rightarrow> string + json" where
  "marshal_Chapter c =
     (case marshal_float (Seconds c) of
        Inl e \<Rightarrow> Inl e
      | Inr secs \<Rightarrow>
          Inr (JObject
            [(''id'', JString (Chapter.ID c)),
             (''file'', JString (File c)),
             (''title'', JString (Title c)),
             (''seconds'', secs),
             (''transcoding'', JBool (Chapter.Transcoding c))]))"

fun marshal_list :: "('a \<Rightarrow> string + json) \<Rightarrow> 'a list \<Rightarrow> string + json list" where
  "marshal_list f [] = Inr []"
| "marshal_list f (x # xs) =
     (case f x of
        Inl e \<Rightarrow> Inl e
      | Inr j \<Rightarrow> (case marshal_list f xs of Inl e \<Rightarrow> Inl e | Inr js \<Rightarrow> Inr (j # js)))"

fun marshal_slice :: "('a \<Rightarrow> string + json) \<Rightarrow> 'a slice \<Rightarrow> string + json" where
  "marshal_slice f NilSlice = Inr JNull"
| "marshal_slice f (Slice xs) =
     (case marshal_list f xs of Inl e \<Rightarrow> Inl e | Inr js \<Rightarrow> Inr (JArray js))"

definition marshal_CreativeTonie :: "CreativeTonie \<Rightarrow> string + json" where
  "marshal_CreativeTonie ct =
     (case marshal_slice (\<lambda>s. Inr (JString s)) (TranscodingErrors ct) of
        Inl e \<Rightarrow> Inl e
      | Inr errs \<Rightarrow>
     (case marshal_float (SecondsPresent ct) of
        Inl e \<Rightarrow> Inl e
      | Inr present \<Rightarrow>
     (case marshal_float (SecondsRemaining ct) of
        Inl e \<Rightarrow> Inl e
      | Inr remaining \<Rightarrow>
     (case marshal_slice marshal_Chapter (Chapters ct) of
        Inl e \<Rightarrow> Inl e
      | Inr chapters \<Rightarrow>
          Inr (JObject
            [(''id'', JString (CreativeTonie.ID ct)),
             (''name'', JString (CreativeTonie.Name ct)),
             (''live'', JBool (Live ct)),
             (''private'', JBool (Private ct)),
             (''imageUrl'', JString (ImageURL ct)),
             (''transcodingErrors'', errs),
             (''transcoding'', JBool (CreativeTonie.Transcoding ct)),
             (''secondsPresent'', present),
             (''secondsRemaining'', remaining),
             (''chaptersPresent'', JInt (ChaptersPresent ct)),
             (''chaptersRemaining'', JInt (ChaptersRemaining ct)),
             (''chapters'', chapters),
             (''householdId'', JString (HouseholdID ct))])))))"

section \<open>The request handler\<close>

text \<open>The \<^verbatim>\<open>Authorization\<close> header of GET, PATCH and DELETE: set only if a token is stored.\<close>

definition bearer :: "JWTToken option \<Rightarrow> (string \<times> string) list" where
  "bearer t =
     (case t of
        None \<Rightarrow> []
      | Some tok \<Rightarrow> [(''Authorization'', ''Bearer '' @ AccessToken tok)])"

text \<open>The status errors: \<^verbatim>\<open>fmt.Errorf("<what> with status %d: %s", resp.StatusCode, string(body))\<close>.\<close>

definition status_error :: "string \<Rightarrow> response \<Rightarrow> string" where
  "status_error what resp = what @ '' with status '' @ itoa (StatusCode resp) @ '': '' @ Body resp"

text \<open>
  \<^verbatim>\<open>login\<close>. The form values are listed in the order \<^verbatim>\<open>Encode\<close> writes them
  (sorted by key).
\<close>

definition login_request :: "Login \<Rightarrow> request" where
  "login_request loginData =
     \<lparr>Method = ''POST'', URL = openIDConnect,
      Header = [(''Content-Type'', contentTypeForm)],
      ReqBody = FormValues
        [(''client_id'', clientID),
         (''grant_type'', grantTypePassword),
         (''password'', Password loginData),
         (''scope'', scopeOpenID),
         (''username'', Login.Email loginData)]\<rparr>"

definition login :: "env \<Rightarrow> rh_ref \<Rightarrow> Login \<Rightarrow> world \<Rightarrow> unit result \<times> world" where
  "login env rh loginData w =
     (case http_NewRequest env ''POST'' openIDConnect of
        Some e \<Rightarrow> (Err (''failed to create login request: '' @ e), w)
      | None \<Rightarrow>
          (case client_Do env (login_request loginData) w of
             (Inl e, w1) \<Rightarrow> (Err (''login request failed: '' @ e), w1)
           | (Inr resp, w1) \<Rightarrow>
               if StatusCode resp \<noteq> 200 then (Err (status_error ''login failed'' resp), w1)
               else
                 (case decode_JWTToken env (Body resp) of
                    Inl e \<Rightarrow> (Err (''failed to decode token: '' @ e), w1)
                  | Inr token \<Rightarrow>
                      (Ok (),
                       w1\<lparr>handlers := (handlers w1)(rh := (handlers w1 rh)\<lparr>jwtToken := Some token\<rparr>)\<rparr>))))"

definition get_request :: "JWTToken option \<Rightarrow> string \<Rightarrow> request" where
  "get_request t url = \<lparr>Method = ''GET'', URL = url, Header = bearer t, ReqBody = NoBody\<rparr>"

definition executeGetRequest ::
  "env \<Rightarrow> rh_ref \<Rightarrow> string \<Rightarrow> (string \<Rightarrow> string + 'a) \<Rightarrow> world \<Rightarrow> 'a result \<times> world" where
  "executeGetRequest env rh url decode w =
     (case http_NewRequest env ''GET'' url of
        Some e \<Rightarrow> (Err (''failed to create request: '' @ e), w)
      | None \<Rightarrow>
          (case client_Do env (get_request (jwtToken (handlers w rh)) url) w of
             (Inl e, w1) \<Rightarrow> (Err (''request failed: '' @ e), w1)
           | (Inr resp, w1) \<Rightarrow>
               if StatusCode resp \<noteq> 200 then (Err (status_error ''request failed'' resp), w1)
               else
                 (case decode (Body resp) of
                    Inl e \<Rightarrow> (Err (''failed to decode response: '' @ e), w1)
                  | Inr v \<Rightarrow> (Ok v, w1))))"

definition patch_request :: "JWTToken option \<Rightarrow> string \<Rightarrow> body \<Rightarrow> request" where
  "patch_request t url b =
     \<lparr>Method = ''PATCH'', URL = url,
      Header = (''Content-Type'', contentTypeJSON) # bearer t, ReqBody = b\<rparr>"

definition executePatchRequest ::
  "env \<Rightarrow> rh_ref \<Rightarrow> string \<Rightarrow> body \<Rightarrow> world \<Rightarrow> unit result \<times> world" where
  "executePatchRequest env rh url b w =
     (case http_NewRequest env ''PATCH'' url of
        Some e \<Rightarrow> (Err (''failed to create request: '' @ e), w)
      | None \<Rightarrow>
          (case client_Do env (patch_request (jwtToken (handlers w rh)) url b) w of
             (Inl e, w1) \<Rightarrow> (Err (''request failed: '' @ e), w1)
           | (Inr resp, w1) \<Rightarrow>
               if StatusCode resp \<noteq> 200 \<and> StatusCode resp \<noteq> 204
               then (Err (status_error ''request failed'' resp), w1)
               else (Ok (), w1)))"

definition getMe :: "env \<Rightarrow> rh_ref \<Rightarrow> world \<Rightarrow> Me result \<times> world" where
  "getMe env rh w = executeGetRequest env rh me (decode_Me env) w"

definition getHouseholds :: "env \<Rightarrow> rh_ref \<Rightarrow> world \<Rightarrow> Household slice result \<times> world" where
  "getHouseholds env rh w = executeGetRequest env rh households (decode_Households env) w"

text \<open>
  \<^verbatim>\<open>getCreativeTonies\<close>, \<^verbatim>\<open>refreshTonie\<close> and \<^verbatim>\<open>commitTonie\<close> read the ID of
  the household behind a pointer, and panic when the pointer is nil.
\<close>

definition getCreativeTonies ::
  "env \<Rightarrow> rh_ref \<Rightarrow> Household option \<Rightarrow> world \<Rightarrow> CreativeTonie slice result \<times> world" where
  "getCreativeTonies env rh hh w =
     (case hh of
        None \<Rightarrow> (Panic, w)
      | Some h \<Rightarrow>
          (case executeGetRequest env rh (creativeTonies (Household.ID h))
                  (decode_CreativeTonies env) w of
             (Ok res, w1) \<Rightarrow>
               (Ok (map_slice (\<lambda>t. t\<lparr>household := hh, requestHandler := Some rh\<rparr>) res), w1)
           | (Err e, w1) \<Rightarrow> (Err e, w1)
           | (Panic, w1) \<Rightarrow> (Panic, w1)))"

definition refreshTonie ::
  "env \<Rightarrow> rh_ref \<Rightarrow> CreativeTonie \<Rightarrow> world \<Rightarrow> CreativeTonie result \<times> world" where
  "refreshTonie env rh tonie w =
     (case household tonie of
        None \<Rightarrow> (Panic, w)
      | Some h \<Rightarrow>
          (case executeGetRequest env rh (creativeTonie (Household.ID h) (CreativeTonie.ID tonie))
                  (decode_CreativeTonie env) w of
             (Ok res, w1) \<Rightarrow>
               (Ok (res\<lparr>household := household tonie, requestHandler := Some rh\<rparr>), w1)
           | (Err e, w1) \<Rightarrow> (Err e, w1)
           | (Panic, w1) \<Rightarrow> (Panic, w1)))"

definition commitTonie :: "env \<Rightarrow> rh_ref \<Rightarrow> CreativeTonie \<Rightarrow> world \<Rightarrow> unit result \<times> world" where
  "commitTonie env rh tonie w =
     (case household tonie of
        None \<Rightarrow> (Panic, w)
      | Some h \<Rightarrow>
          (case marshal_CreativeTonie tonie of
             Inl e \<Rightarrow> (Err (''failed to marshal tonie: '' @ e), w)
           | Inr b \<Rightarrow>
               executePatchRequest env rh
                 (creativeTonie (Household.ID h) (CreativeTonie.ID tonie)) (JSONBody b) w))"

text \<open>
  \<^verbatim>\<open>uploadFile\<close>, step 1: the credential request. The bearer header is built
  from \<^verbatim>\<open>rh.jwtToken.AccessToken\<close> with no nil check, after \<^verbatim>\<open>http.NewRequest\<close>
  and before anything is sent.
\<close>

definition emptyBody :: string where
  \<open>emptyBody = ''{"headers":{}}''\<close>

definition upload_request :: "JWTToken \<Rightarrow> request" where
  "upload_request tok =
     \<lparr>Method = ''POST'', URL = fileUpload,
      Header = [(''Content-Type'', contentTypeJSON),
                (''Authorization'', ''Bearer '' @ AccessToken tok)],
      ReqBody = Bytes emptyBody\<rparr>"

definition uploadFile_step1 :: "env \<Rightarrow> rh_ref \<Rightarrow> world \<Rightarrow> AmazonBean result \<times> world" where
  "uploadFile_step1 env rh w =
     (case http_NewRequest env ''POST'' fileUpload of
        Some e \<Rightarrow> (Err (''failed to create upload request: '' @ e), w)
      | None \<Rightarrow>
          (case jwtToken (handlers w rh) of
             None \<Rightarrow> (Panic, w)
           | Some tok \<Rightarrow>
               (case client_Do env (upload_request tok) w of
                  (Inl e, w1) \<Rightarrow> (Err (''upload request failed: '' @ e), w1)
                | (Inr resp, w1) \<Rightarrow>
                    if StatusCode resp \<noteq> 200
                    then (Err (status_error ''upload request failed'' resp), w1)
                    else
                      (case decode_AmazonBean env (Body resp) of
                         Inl e \<Rightarrow> (Err (''failed to decode amazon response: '' @ e), w1)
                       | Inr amazonBean \<Rightarrow> (Ok amazonBean, w1)))))"

text \<open>
  Step 2: the form. The seven \<^verbatim>\<open>WriteField\<close> statements of the source, each
  returning \<^verbatim>\<open>failed to write <name> field\<close> when the writer fails, are the
  recursion over the seven name-value pairs in the order of the statements.
\<close>

definition form_fields :: "FieldsBean \<Rightarrow> (string \<times> string) list" where
  "form_fields fs =
     [(''key'', Key fs),
      (''x-amz-algorithm'', XAmzAlgorithm fs),
      (''x-amz-credential'', XAmzCredential fs),
      (''x-amz-date'', XAmzDate fs),
      (''policy'', Policy fs),
      (''x-amz-signature'', XAmzSignature fs),
      (''x-amz-security-token'', XAmzSecurityToken fs)]"

fun WriteFields :: "env \<Rightarrow> (string \<times> string) list \<Rightarrow> part list \<Rightarrow> string + part list" where
  "WriteFields env [] written = Inr written"
| "WriteFields env ((name, v) # rest) written =
     (case multipart_WriteField env name of
        Some e \<Rightarrow> Inl (''failed to write '' @ name @ '' field: '' @ e)
      | None \<Rightarrow> WriteFields env rest (written @ [FormField name v]))"

text \<open>
  The form of step 2, from the first \<^verbatim>\<open>WriteField\<close> to \<^verbatim>\<open>writer.Close\<close>: the
  fields, then the file part named \<^verbatim>\<open>file\<close> with the key as its file name and
  what \<^verbatim>\<open>io.Copy\<close> read from the opened file as its content.
\<close>

definition multipart_form :: "env \<Rightarrow> FieldsBean \<Rightarrow> string + string \<Rightarrow> string + part list" where
  "multipart_form env fs file =
     (case WriteFields env (form_fields fs) [] of
        Inl e \<Rightarrow> Inl e
      | Inr written \<Rightarrow>
     (case multipart_CreateFormFile env of
        Some e \<Rightarrow> Inl (''failed to create form file: '' @ e)
      | None \<Rightarrow>
     (case file of
        Inl e \<Rightarrow> Inl (''failed to copy file: '' @ e)
      | Inr content \<Rightarrow>
     (case multipart_Close env of
        Some e \<Rightarrow> Inl (''failed to close writer: '' @ e)
      | None \<Rightarrow> Inr (written @ [FormFile ''file'' (Key fs) content])))))"

definition s3_request :: "env \<Rightarrow> part list \<Rightarrow> request" where
  "s3_request env parts =
     \<lparr>Method = ''POST'', URL = fileUploadAmazon,
      Header = [(''Content-Type'', ''multipart/form-data; boundary='' @ multipart_Boundary env)],
      ReqBody = Multipart parts\<rparr>"

definition uploadFile_step2 ::
  "env \<Rightarrow> AmazonBean \<Rightarrow> string \<Rightarrow> world \<Rightarrow> unit result \<times> world" where
  "uploadFile_step2 env amazonBean filePath w =
     (case os_Open env filePath of
        Inl e \<Rightarrow> (Err (''failed to open file: '' @ e), w)
      | Inr file \<Rightarrow>
          (case multipart_form env (Fields (Request amazonBean)) file of
             Inl e \<Rightarrow> (Err e, w)
           | Inr parts \<Rightarrow>
               (case http_NewRequest env ''POST'' fileUploadAmazon of
                  Some e \<Rightarrow> (Err (''failed to create S3 request: '' @ e), w)
                | None \<Rightarrow>
                    (case client_Do env (s3_request env parts) w of
                       (Inl e, w1) \<Rightarrow> (Err (''S3 upload failed: '' @ e), w1)
                     | (Inr s3Resp, w1) \<Rightarrow>
                         if StatusCode s3Resp \<noteq> 204 \<and> StatusCode s3Resp \<noteq> 200
                         then (Err (status_error ''S3 upload failed'' s3Resp), w1)
                         else (Ok (), w1)))))"

text \<open>
  Step 3, and the whole of \<^verbatim>\<open>uploadFile\<close>: the tonie is written only after both
  steps returned without error. The new chapter's other fields are zero values.
\<close>

definition newChapter :: "AmazonBean \<Rightarrow> string \<Rightarrow> Chapter" where
  "newChapter amazonBean title =
     \<lparr>Chapter.ID = Key (Fields (Request amazonBean)), File = FileID amazonBean,
      Title = title, Seconds = 0, Transcoding = False\<rparr>"

definition uploadFile ::
  "env \<Rightarrow> rh_ref \<Rightarrow> CreativeTonie \<Rightarrow> string \<Rightarrow> string \<Rightarrow> world
     \<Rightarrow> unit result \<times> CreativeTonie \<times> world" where
  "uploadFile env rh tonie filePath title w =
     (case uploadFile_step1 env rh w of
        (Err e, w1) \<Rightarrow> (Err e, tonie, w1)
      | (Panic, w1) \<Rightarrow> (Panic, tonie, w1)
      | (Ok amazonBean, w1) \<Rightarrow>
          (case uploadFile_step2 env amazonBean filePath w1 of
             (Err e, w2) \<Rightarrow> (Err e, tonie, w2)
           | (Panic, w2) \<Rightarrow> (Panic, tonie, w2)
           | (Ok u, w2) \<Rightarrow>
               (Ok (),
                tonie\<lparr>Chapters := append_slice (Chapters tonie) (newChapter amazonBean title)\<rparr>,
                w2)))"

definition disconnect_request :: "JWTToken option \<Rightarrow> request" where
  "disconnect_request t = \<lparr>Method = ''DELETE'', URL = session, Header = bearer t, ReqBody = NoBody\<rparr>"

definition disconnect :: "env \<Rightarrow> rh_ref \<Rightarrow> world \<Rightarrow> unit result \<times> world" where
  "disconnect env rh w =
     (case http_NewRequest env ''DELETE'' session of
        Some e \<Rightarrow> (Err (''failed to create disconnect request: '' @ e), w)
      | None \<Rightarrow>
          (case client_Do env (disconnect_request (jwtToken (handlers w rh))) w of
             (Inl e, w1) \<Rightarrow> (Err (''disconnect request failed: '' @ e), w1)
           | (Inr resp, w1) \<Rightarrow>
               if StatusCode resp \<noteq> 200 \<and> StatusCode resp \<noteq> 204
               then (Err (status_error ''disconnect failed'' resp), w1)
               else (Ok (), w1)))"

section \<open>The client and the methods of a Creative-Tonie (client.go)\<close>

text \<open>A \<^verbatim>\<open>Client\<close> holds the address of its request handler.\<close>

definition Client_Login :: "env \<Rightarrow> rh_ref \<Rightarrow> string \<Rightarrow> string \<Rightarrow> world \<Rightarrow> unit result \<times> world" where
  "Client_Login env c username password w =
     login env c \<lparr>Login.Email = username, Password = password\<rparr> w"

definition GetMe :: "env \<Rightarrow> rh_ref \<Rightarrow> world \<Rightarrow> Me result \<times> world" where
  "GetMe env c w = getMe env c w"

definition GetHouseholds :: "env \<Rightarrow> rh_ref \<Rightarrow> world \<Rightarrow> Household slice result \<times> world" where
  "GetHouseholds env c w = getHouseholds env c w"

definition GetCreativeTonies ::
  "env \<Rightarrow> rh_ref \<Rightarrow> Household option \<Rightarrow> world \<Rightarrow> CreativeTonie slice result \<times> world" where
  "GetCreativeTonies env c hh w = getCreativeTonies env c hh w"

text \<open>
  The methods with receiver \<^verbatim>\<open>ct *CreativeTonie\<close> return the receiver as they
  leave it, beside the \<^verbatim>\<open>error\<close> the source returns. Note the order of the
  arguments of \<^verbatim>\<open>UploadFile\<close> (title, then path) and of \<^verbatim>\<open>uploadFile\<close>.
\<close>

definition UploadFile ::
  "env \<Rightarrow> CreativeTonie \<Rightarrow> string \<Rightarrow> string \<Rightarrow> world \<Rightarrow> unit result \<times> CreativeTonie \<times> world" where
  "UploadFile env ct title filePath w =
     (case requestHandler ct of
        None \<Rightarrow> (Err ''tonie not properly initialized'', ct, w)
      | Some rh \<Rightarrow> uploadFile env rh ct filePath title w)"

definition Commit :: "env \<Rightarrow> CreativeTonie \<Rightarrow> world \<Rightarrow> unit result \<times> world" where
  "Commit env ct w =
     (case requestHandler ct of
        None \<Rightarrow> (Err ''tonie not properly initialized'', w)
      | Some rh \<Rightarrow> commitTonie env rh ct w)"

definition Refresh :: "env \<Rightarrow> CreativeTonie \<Rightarrow> world \<Rightarrow> unit result \<times> CreativeTonie \<times> world" where
  "Refresh env ct w =
     (case requestHandler ct of
        None \<Rightarrow> (Err ''tonie not properly initialized'', ct, w)
      | Some rh \<Rightarrow>
          (case refreshTonie env rh ct w of
             (Err e, w1) \<Rightarrow> (Err e, ct, w1)
           | (Panic, w1) \<Rightarrow> (Panic, ct, w1)
           | (Ok refreshed, w1) \<Rightarrow>
               (Ok (),
                ct\<lparr>CreativeTonie.ID := CreativeTonie.ID refreshed,
                   CreativeTonie.Name := CreativeTonie.Name refreshed,
                   Live := Live refreshed,
                   Private := Private refreshed,
                   ImageURL := ImageURL refreshed,
                   TranscodingErrors := TranscodingErrors refreshed,
                   CreativeTonie.Transcoding := CreativeTonie.Transcoding refreshed,
                   SecondsPresent := SecondsPresent refreshed,
                   SecondsRemaining := SecondsRemaining refreshed,
                   ChaptersPresent := ChaptersPresent refreshed,
                   ChaptersRemaining := ChaptersRemaining refreshed,
                   Chapters := Chapters refreshed,
                   HouseholdID := HouseholdID refreshed\<rparr>,
                w1)))"

section \<open>Sequences of operations on one client\<close>

text \<open>
  The calls a program can make on a client \<^verbatim>\<open>c\<close> and on Creative-Tonies, one
  after the other, each with its arguments. A panic ends the program.
\<close>

datatype op =
    OpLogin string string
  | OpGetMe
  | OpGetHouseholds
  | OpGetCreativeTonies "Household option"
  | OpDisconnect
  | OpRefresh CreativeTonie
  | OpCommit CreativeTonie
  | OpUploadFile CreativeTonie string string

fun panicked :: "'a result \<Rightarrow> bool" where
  "panicked Panic = True"
| "panicked (Ok v) = False"
| "panicked (Err e) = False"

fun exec_op :: "env \<Rightarrow> rh_ref \<Rightarrow> op \<Rightarrow> world \<Rightarrow> bool \<times> world" where
  "exec_op env c (OpLogin username password) w =
     (case Client_Login env c username password w of (r, w1) \<Rightarrow> (panicked r, w1))"
| "exec_op env c OpGetMe w = (case GetMe env c w of (r, w1) \<Rightarrow> (panicked r, w1))"
| "exec_op env c OpGetHouseholds w =
     (case GetHouseholds env c w of (r, w1) \<Rightarrow> (panicked r, w1))"
| "exec_op env c (OpGetCreativeTonies hh) w =
     (case GetCreativeTonies env c hh w of (r, w1) \<Rightarrow> (panicked r, w1))"
| "exec_op env c OpDisconnect w = (case disconnect env c w of (r, w1) \<Rightarrow> (panicked r, w1))"
| "exec_op env c (OpRefresh ct) w = (case Refresh env ct w of (r, ct1, w1) \<Rightarrow> (panicked r, w1))"
| "exec_op env c (OpCommit ct) w = (case Commit env ct w of (r, w1) \<Rightarrow> (panicked r, w1))"
| "exec_op env c (OpUploadFile ct title filePath) w =
     (case UploadFile env ct title filePath w of (r, ct1, w1) \<Rightarrow> (panicked r, w1))"

fun run :: "env \<Rightarrow> rh_ref \<Rightarrow> op list \<Rightarrow> world \<Rightarrow> bool \<times> world" where
  "run env c [] w = (False, w)"
| "run env c (opn # ops) w =
     (case exec_op env c opn w of
        (True, w1) \<Rightarrow> (True, w1)
      | (False, w1) \<Rightarrow> run env c ops w1)"

section \<open>Reading the log of requests\<close>

text \<open>
  A login request is a POST to the identity endpoint; no other function of the
  package sends one. \<open>granted env hist new\<close> lists the tokens that the logins among
  the requests \<open>new\<close>, sent after \<open>hist\<close>, were answered with: those with a
  response of status 200 whose body decodes.
\<close>

definition is_login_request :: "request \<Rightarrow> bool" where
  "is_login_request q = (Method q = ''POST'' \<and> request.URL q = openIDConnect)"

fun granted :: "env \<Rightarrow> request list \<Rightarrow> request list \<Rightarrow> JWTToken list" where
  "granted env hist [] = []"
| "granted env hist (q # qs) =
     (if is_login_request q then
        (case transport env hist q of
           Inl e \<Rightarrow> []
         | Inr resp \<Rightarrow>
             if StatusCode resp = 200 then
               (case decode_JWTToken env (Body resp) of Inl e \<Rightarrow> [] | Inr token \<Rightarrow> [token])
             else [])
      else []) @ granted env (hist @ [q]) qs"

text \<open>The token a handler holds after logins granted \<open>ts\<close>, in this order, when it held \<open>t\<close> before.\<close>

definition stored_after :: "JWTToken option \<Rightarrow> JWTToken list \<Rightarrow> JWTToken option" where
  "stored_after t ts = (if ts = [] then t else Some (last ts))"

definition auth_header :: "JWTToken option \<Rightarrow> string option" where
  "auth_header t = (case t of None \<Rightarrow> None | Some tok \<Rightarrow> Some (''Bearer '' @ AccessToken tok))"

text \<open>
  A request that is no login and that, if it is a GET or a PATCH, has the
  \<^verbatim>\<open>Authorization\<close> header of the token \<open>t\<close> (none if there is no token).
\<close>

definition authorised :: "JWTToken option \<Rightarrow> request \<Rightarrow> bool" where
  "authorised t q =
     (\<not> is_login_request q \<and>
      (Method q = ''GET'' \<or> Method q = ''PATCH'' \<longrightarrow>
         map_of (Header q) ''Authorization'' = auth_header t))"

text \<open>\<open>quiet rh w w'\<close>: from \<open>w\<close> to \<open>w'\<close> no handler changed and only such requests were sent.\<close>

definition quiet :: "rh_ref \<Rightarrow> world \<Rightarrow> world \<Rightarrow> bool" where
  "quiet rh w w' =
     (handlers w' = handlers w \<and>
      (\<exists>new. sent w' = sent w @ new \<and> (\<forall>q \<in> set new. authorised (jwtToken (handlers w rh)) q)))"

text \<open>
  An operation on the client \<open>c\<close> itself, or on a Creative-Tonie that is wired to
  the handler of \<open>c\<close> (or to none).
\<close>

fun on_client :: "rh_ref \<Rightarrow> op \<Rightarrow> bool" where
  "on_client c (OpRefresh ct) = (requestHandler ct = None \<or> requestHandler ct = Some c)"
| "on_client c (OpCommit ct) = (requestHandler ct = None \<or> requestHandler ct = Some c)"
| "on_client c (OpUploadFile ct title filePath) =
     (requestHandler ct = None \<or> requestHandler ct = Some c)"
| "on_client c opn = True"

text \<open>
  \<open>effect env c own w w'\<close>: from \<open>w\<close> to \<open>w'\<close> the log grew by some requests, the
  token of \<open>c\<close> is the one the last granted login among them left (the old one if
  none was granted), and, if all operations were on \<open>c\<close> and no login was granted,
  every GET and PATCH among them carries the token of \<open>c\<close>.
\<close>

definition effect :: "env \<Rightarrow> rh_ref \<Rightarrow> bool \<Rightarrow> world \<Rightarrow> world \<Rightarrow> bool" where
  "effect env c own w w' =
     (\<exists>new. sent w' = sent w @ new
        \<and> jwtToken (handlers w' c) = stored_after (jwtToken (handlers w c)) (granted env (sent w) new)
        \<and> (own \<and> granted env (sent w) new = [] \<longrightarrow>
             (\<forall>q \<in> set new. Method q = ''GET'' \<or> Method q = ''PATCH'' \<longrightarrow>
                map_of (Header q) ''Authorization'' = auth_header (jwtToken (handlers w c)))))"

section \<open>An example server, for the concrete runs below\<close>

definition token_body_1 :: string where
  \<open>token_body_1 = ''{"access_token":"abc123"}''\<close>

definition token_body_2 :: string where
  \<open>token_body_2 = ''{"access_token":"xyz789"}''\<close>

definition ticket_body :: string where
  \<open>ticket_body = ''{"fileId":"f1","request":{"fields":{"key":"k1"}}}''\<close>

definition tonie_body :: string where
  \<open>tonie_body = ''{"id":"t1","name":"Fresh","chaptersPresent":1,"chapters":[{"id":"c9","title":"New"}],"householdId":"h1"}''\<close>

definition example_token_1 :: JWTToken where
  "example_token_1 =
     \<lparr>AccessToken = ''abc123'', ExpiresIn = 0, RefreshToken = [], TokenType = [], Scope = []\<rparr>"

definition example_token_2 :: JWTToken where
  "example_token_2 =
     \<lparr>AccessToken = ''xyz789'', ExpiresIn = 0, RefreshToken = [], TokenType = [], Scope = []\<rparr>"

definition example_bean :: AmazonBean where
  "example_bean =
     \<lparr>FileID = ''f1'',
      Request = \<lparr>RequestBean.URL = [],
        Fields = \<lparr>Key = ''k1'', Policy = [], XAmzAlgorithm = [], XAmzCredential = [],
                  XAmzDate = [], XAmzSignature = [], XAmzSecurityToken = []\<rparr>\<rparr>\<rparr>"

definition example_household :: Household where
  "example_household =
     \<lparr>Household.ID = ''h1'', Name = ''Home'', Image = [], ForeignCreativeTonieContent = False,
      Access = ''owner'', CanLeave = False, OwnerName = ''A''\<rparr>"

definition chapter_1 :: Chapter where
  "chapter_1 = \<lparr>Chapter.ID = ''c1'', File = ''f-1'', Title = ''Intro'', Seconds = 0, Transcoding = False\<rparr>"

definition chapter_2 :: Chapter where
  "chapter_2 = \<lparr>Chapter.ID = ''c2'', File = ''f-2'', Title = ''Story'', Seconds = 0, Transcoding = False\<rparr>"

definition chapter_3 :: Chapter where
  "chapter_3 = \<lparr>Chapter.ID = ''c1'', File = ''f-3'', Title = ''Outro'', Seconds = 0, Transcoding = False\<rparr>"

definition example_tonie :: CreativeTonie where
  "example_tonie =
     \<lparr>CreativeTonie.ID = ''t1'', Name = ''Bear'', Live = False, Private = True, ImageURL = [],
      TranscodingErrors = NilSlice, Transcoding = False, SecondsPresent = 0,
      SecondsRemaining = 0, ChaptersPresent = 3, ChaptersRemaining = 96,
      Chapters = Slice [chapter_1, chapter_2, chapter_3], HouseholdID = ''h1'',
      household = Some example_household, requestHandler = Some 0\<rparr>"

text \<open>What decoding \<open>tonie_body\<close> into a zero \<^verbatim>\<open>CreativeTonie\<close> gives.\<close>

definition example_refreshed :: CreativeTonie where
  "example_refreshed =
     \<lparr>CreativeTonie.ID = ''t1'', Name = ''Fresh'', Live = False, Private = False, ImageURL = [],
      TranscodingErrors = NilSlice, Transcoding = False, SecondsPresent = 0,
      SecondsRemaining = 0, ChaptersPresent = 1, ChaptersRemaining = 0,
      Chapters = Slice [\<lparr>Chapter.ID = ''c9'', File = [], Title = ''New'', Seconds = 0,
                         Transcoding = False\<rparr>],
      HouseholdID = ''h1'', household = None, requestHandler = None\<rparr>"

text \<open>
  The server grants \<^verbatim>\<open>abc123\<close> to the first request it ever receives if that is a
  login and \<^verbatim>\<open>xyz789\<close> to every later login, hands out the ticket with key
  \<^verbatim>\<open>k1\<close> and file id \<^verbatim>\<open>f1\<close>, accepts every storage POST and every PATCH with 204,
  answers the GET of the tonie \<^verbatim>\<open>t1\<close> of household \<^verbatim>\<open>h1\<close>, answers the GET of the
  household list with status 200 and an empty body, and has 404 for the rest.
  Only \<^verbatim>\<open>/tmp/a.mp3\<close> exists. The decoders are \<^verbatim>\<open>json\<close> decoding on the bodies
  this server sends; decoding the empty body is the error \<^verbatim>\<open>EOF\<close>.
\<close>

definition example_transport :: "request list \<Rightarrow> request \<Rightarrow> string + response" where
  "example_transport hist q =
     (if Method q = ''POST'' \<and> request.URL q = openIDConnect then
        Inr \<lparr>StatusCode = 200, Body = (if hist = [] then token_body_1 else token_body_2)\<rparr>
      else if Method q = ''POST'' \<and> request.URL q = fileUpload then
        Inr \<lparr>StatusCode = 200, Body = ticket_body\<rparr>
      else if Method q = ''POST'' \<and> request.URL q = fileUploadAmazon then
        Inr \<lparr>StatusCode = 204, Body = []\<rparr>
      else if Method q = ''PATCH'' then
        Inr \<lparr>StatusCode = 204, Body = []\<rparr>
      else if Method q = ''GET'' \<and> request.URL q = creativeTonie ''h1'' ''t1'' then
        Inr \<lparr>StatusCode = 200, Body = tonie_body\<rparr>
      else if Method q = ''GET'' \<and> request.URL q = households then
        Inr \<lparr>StatusCode = 200, Body = []\<rparr>
      else Inr \<lparr>StatusCode = 404, Body = ''not found''\<rparr>)"

definition example_env :: env where
  "example_env =
     \<lparr>http_NewRequest = (\<lambda>m u. None),
      transport = example_transport,
      os_Open = (\<lambda>path. if path = ''/tmp/a.mp3'' then Inr (Inr ''RIFF'')
                         else Inl (''open '' @ path @ '': no such file or directory'')),
      multipart_WriteField = (\<lambda>name. None),
      multipart_CreateFormFile = None,
      multipart_Close = None,
      multipart_Boundary = ''b0'',
      decode_JWTToken = (\<lambda>b. if b = token_body_1 then Inr example_token_1
                               else if b = token_body_2 then Inr example_token_2 else Inl ''EOF''),
      decode_Me = (\<lambda>b. Inl ''EOF''),
      decode_Households = (\<lambda>b. Inl ''EOF''),
      decode_CreativeTonies = (\<lambda>b. Inl ''EOF''),
      decode_CreativeTonie = (\<lambda>b. if b = tonie_body then Inr example_refreshed else Inl ''EOF''),
      decode_AmazonBean = (\<lambda>b. if b = ticket_body then Inr example_bean else Inl ''EOF'')\<rparr>"

text \<open>A fresh program: no handler has a token, nothing was sent. And one after a login.\<close>

definition example_world :: world where
  "example_world = \<lparr>handlers = (\<lambda>rh. \<lparr>jwtToken = None\<rparr>), sent = []\<rparr>"

definition logged_in_world :: world where
  "logged_in_world =
     \<lparr>handlers = (\<lambda>rh. \<lparr>jwtToken = (if rh = 0 then Some example_token_1 else None)\<rparr>),
      sent = [login_request \<lparr>Login.Email = ''a@b.com'', Password = ''pw''\<rparr>]\<rparr>"

section \<open>Lemmas: the chapter loops\<close>

lemma FindChapterByTitle_loop_find:
  "FindChapterByTitle_loop cs title = List.find (\<lambda>c. Title c = title) cs"
  by (induction cs) simp_all

lemma DeleteChapter_loop_elems:
  "elems (DeleteChapter_loop cs ch acc) =
     elems acc @ filter (\<lambda>c. Chapter.ID c \<noteq> Chapter.ID ch) cs"
  by (induction cs arbitrary: acc) (simp_all add: append_slice_def)

lemma filter_ID_length:
  "length (filter (\<lambda>c. Chapter.ID c \<noteq> k) cs) + length (filter (\<lambda>c. Chapter.ID c = k) cs) =
     length cs"
  by (induction cs) simp_all

section \<open>Lemmas: what each function does to the handlers and to the log\<close>

lemma granted_append:
  "granted env hist (xs @ ys) = granted env hist xs @ granted env (hist @ xs) ys"
  by (induction xs arbitrary: hist) simp_all

lemma granted_authorised:
  "\<forall>q \<in> set new. authorised t q \<Longrightarrow> granted env hist new = []"
  by (induction new arbitrary: hist) (simp_all add: authorised_def)

lemma stored_after_append:
  "stored_after (stored_after t xs) ys = stored_after t (xs @ ys)"
  by (simp add: stored_after_def)

lemma quiet_refl: "quiet rh w w"
  by (simp add: quiet_def)

lemma authorised_get: "authorised t (get_request t url)"
  by (cases t) (simp_all add: authorised_def get_request_def bearer_def auth_header_def is_login_request_def)

lemma authorised_patch: "authorised t (patch_request t url b)"
  by (cases t) (simp_all add: authorised_def patch_request_def bearer_def auth_header_def is_login_request_def)

lemma authorised_disconnect: "authorised t (disconnect_request t)"
  by (simp add: authorised_def disconnect_request_def is_login_request_def)

lemma authorised_upload: "authorised t (upload_request tok)"
  by (simp add: authorised_def upload_request_def is_login_request_def fileUpload_def openIDConnect_def)

lemma authorised_s3: "authorised t (s3_request env parts)"
  by (simp add: authorised_def s3_request_def is_login_request_def fileUploadAmazon_def openIDConnect_def)

lemma quiet_client_Do:
  "authorised (jwtToken (handlers w rh)) q \<Longrightarrow> client_Do env q w = (r, w') \<Longrightarrow> quiet rh w w'"
  by (auto simp: client_Do_def quiet_def)

lemma quiet_trans:
  "quiet rh w w1 \<Longrightarrow> quiet rh w1 w2 \<Longrightarrow> quiet rh w w2"
  by (auto simp: quiet_def)

lemma executeGetRequest_quiet:
  "executeGetRequest env rh url dec w = (r, w') \<Longrightarrow> quiet rh w w'"
  by (auto simp: executeGetRequest_def quiet_refl authorised_get
      split: option.splits prod.splits sum.splits if_splits dest!: quiet_client_Do[rotated])


lemma executePatchRequest_quiet:
  "executePatchRequest env rh url b w = (r, w') \<Longrightarrow> quiet rh w w'"
  by (auto simp: executePatchRequest_def quiet_refl authorised_patch
      split: option.splits prod.splits sum.splits if_splits dest!: quiet_client_Do[rotated])

lemma disconnect_quiet:
  "disconnect env rh w = (r, w') \<Longrightarrow> quiet rh w w'"
  by (auto simp: disconnect_def quiet_refl authorised_disconnect
      split: option.splits prod.splits sum.splits if_splits dest!: quiet_client_Do[rotated])

lemma getCreativeTonies_quiet:
  "getCreativeTonies env rh hh w = (r, w') \<Longrightarrow> quiet rh w w'"
  by (auto simp: getCreativeTonies_def quiet_refl
      split: option.splits prod.splits result.splits dest: executeGetRequest_quiet)

lemma refreshTonie_quiet:
  "refreshTonie env rh tonie w = (r, w') \<Longrightarrow> quiet rh w w'"
  by (auto simp: refreshTonie_def quiet_refl
      split: option.splits prod.splits result.splits dest: executeGetRequest_quiet)

lemma commitTonie_quiet:
  "commitTonie env rh tonie w = (r, w') \<Longrightarrow> quiet rh w w'"
  by (auto simp: commitTonie_def quiet_refl
      split: option.splits sum.splits dest: executePatchRequest_quiet)

lemma uploadFile_step1_quiet:
  "uploadFile_step1 env rh w = (r, w') \<Longrightarrow> quiet rh w w'"
  by (auto simp: uploadFile_step1_def quiet_refl authorised_upload
      split: option.splits prod.splits sum.splits if_splits dest!: quiet_client_Do[rotated])

lemma uploadFile_step2_quiet:
  "uploadFile_step2 env bean filePath w = (r, w') \<Longrightarrow> quiet rh w w'"
  by (auto simp: uploadFile_step2_def quiet_refl authorised_s3
      split: option.splits prod.splits sum.splits if_splits dest!: quiet_client_Do[rotated])

lemma uploadFile_quiet:
  "uploadFile env rh tonie filePath title w = (r, tonie', w') \<Longrightarrow> quiet rh w w'"
  by (auto simp: uploadFile_def split: prod.splits result.splits
      dest!: uploadFile_step1_quiet uploadFile_step2_quiet[where rh = rh] intro: quiet_trans)

lemma Refresh_quiet:
  "Refresh env ct w = (r, ct', w') \<Longrightarrow> quiet (case requestHandler ct of None \<Rightarrow> c | Some rh \<Rightarrow> rh) w w'"
  by (auto simp: Refresh_def quiet_refl split: option.splits prod.splits result.splits
      dest: refreshTonie_quiet)

lemma Commit_quiet:
  "Commit env ct w = (r, w') \<Longrightarrow> quiet (case requestHandler ct of None \<Rightarrow> c | Some rh \<Rightarrow> rh) w w'"
  by (auto simp: Commit_def quiet_refl split: option.splits dest: commitTonie_quiet)

lemma UploadFile_quiet:
  "UploadFile env ct title filePath w = (r, ct', w') \<Longrightarrow> quiet (case requestHandler ct of None \<Rightarrow> c | Some rh \<Rightarrow> rh) w w'"
  by (auto simp: UploadFile_def quiet_refl split: option.splits dest: uploadFile_quiet)

lemma quiet_any:
  "quiet rh w w' \<Longrightarrow> handlers w' = handlers w \<and> (\<exists>new. sent w' = sent w @ new \<and> granted env (sent w) new = [])"
  by (auto simp: quiet_def dest: granted_authorised)

lemma login_effect:
  assumes "login env rh loginData w = (r, w')"
  shows "\<exists>new. sent w' = sent w @ new
           \<and> (\<forall>q \<in> set new. Method q \<noteq> ''GET'' \<and> Method q \<noteq> ''PATCH'')
           \<and> (\<forall>rh'. jwtToken (handlers w' rh') =
                 (if rh' = rh then stored_after (jwtToken (handlers w rh)) (granted env (sent w) new)
                  else jwtToken (handlers w rh')))"
  using assms
  by (auto simp: login_def client_Do_def stored_after_def login_request_def is_login_request_def
      split: option.splits sum.splits if_splits)


lemma quiet_effect:
  assumes "quiet rh w w'" and "own \<longrightarrow> rh = c"
  shows "effect env c own w w'"
proof -
  from assms(1) obtain new where h: "handlers w' = handlers w" and s: "sent w' = sent w @ new"
    and a: "\<forall>q \<in> set new. authorised (jwtToken (handlers w rh)) q"
    unfolding quiet_def by blast
  from a have g: "granted env (sent w) new = []"
    by (rule granted_authorised)
  have t: "jwtToken (handlers w' c) = stored_after (jwtToken (handlers w c)) (granted env (sent w) new)"
    by (simp add: g h stored_after_def)
  have "own \<longrightarrow> (\<forall>q \<in> set new. Method q = ''GET'' \<or> Method q = ''PATCH'' \<longrightarrow>
                map_of (Header q) ''Authorization'' = auth_header (jwtToken (handlers w c)))"
    using a assms(2) by (auto simp: authorised_def)
  with s t show ?thesis
    unfolding effect_def by blast
qed

lemma login_effect':
  "login env c loginData w = (r, w') \<Longrightarrow> effect env c own w w'"
  using login_effect[of env c loginData w r w'] unfolding effect_def by auto

lemma exec_op_effect:
  assumes "exec_op env c opn w = (p, w')"
  shows "effect env c (on_client c opn) w w'"
proof (cases opn)
  case (OpLogin u pw)
  with assms show ?thesis
    by (auto simp: Client_Login_def split: prod.splits dest: login_effect')
next
  case OpGetMe
  with assms show ?thesis
    by (auto simp: GetMe_def getMe_def split: prod.splits
        dest!: executeGetRequest_quiet intro: quiet_effect)
next
  case OpGetHouseholds
  with assms show ?thesis
    by (auto simp: GetHouseholds_def getHouseholds_def split: prod.splits
        dest!: executeGetRequest_quiet intro: quiet_effect)
next
  case (OpGetCreativeTonies hh)
  with assms show ?thesis
    by (auto simp: GetCreativeTonies_def split: prod.splits
        dest!: getCreativeTonies_quiet intro: quiet_effect)
next
  case OpDisconnect
  with assms show ?thesis
    by (auto split: prod.splits dest!: disconnect_quiet intro: quiet_effect)
next
  case (OpRefresh ct)
  with assms show ?thesis
    by (auto split: prod.splits dest!: Refresh_quiet[where c = c] intro!: quiet_effect)
next
  case (OpCommit ct)
  with assms show ?thesis
    by (auto split: prod.splits dest!: Commit_quiet[where c = c] intro!: quiet_effect)
next
  case (OpUploadFile ct title filePath)
  with assms show ?thesis
    by (auto split: prod.splits dest!: UploadFile_quiet[where c = c] intro!: quiet_effect)
qed

lemma effect_refl: "effect env c own w w"
  by (simp add: effect_def stored_after_def)

lemma effect_trans:
  assumes "effect env c own1 w w1" and "effect env c own2 w1 w2" and "own \<longrightarrow> own1 \<and> own2"
  shows "effect env c own w w2"
proof -
  from assms(1) obtain n1 where n1: "sent w1 = sent w @ n1"
    "jwtToken (handlers w1 c) = stored_after (jwtToken (handlers w c)) (granted env (sent w) n1)"
    "own1 \<and> granted env (sent w) n1 = [] \<longrightarrow>
       (\<forall>q \<in> set n1. Method q = ''GET'' \<or> Method q = ''PATCH'' \<longrightarrow>
          map_of (Header q) ''Authorization'' = auth_header (jwtToken (handlers w c)))"
    unfolding effect_def by blast
  from assms(2) obtain n2 where n2: "sent w2 = sent w1 @ n2"
    "jwtToken (handlers w2 c) = stored_after (jwtToken (handlers w1 c)) (granted env (sent w1) n2)"
    "own2 \<and> granted env (sent w1) n2 = [] \<longrightarrow>
       (\<forall>q \<in> set n2. Method q = ''GET'' \<or> Method q = ''PATCH'' \<longrightarrow>
          map_of (Header q) ''Authorization'' = auth_header (jwtToken (handlers w1 c)))"
    unfolding effect_def by blast
  have g: "granted env (sent w) (n1 @ n2) = granted env (sent w) n1 @ granted env (sent w1) n2"
    by (simp add: granted_append n1(1))
  have s: "sent w2 = sent w @ (n1 @ n2)"
    by (simp add: n1(1) n2(1))
  have t: "jwtToken (handlers w2 c) =
             stored_after (jwtToken (handlers w c)) (granted env (sent w) (n1 @ n2))"
    by (simp add: n2(2) n1(2) g stored_after_append)
  have h: "own \<and> granted env (sent w) (n1 @ n2) = [] \<longrightarrow>
       (\<forall>q \<in> set (n1 @ n2). Method q = ''GET'' \<or> Method q = ''PATCH'' \<longrightarrow>
          map_of (Header q) ''Authorization'' = auth_header (jwtToken (handlers w c)))"
  proof (intro impI)
    assume a: "own \<and> granted env (sent w) (n1 @ n2) = []"
    then have e1: "granted env (sent w) n1 = []" and e2: "granted env (sent w1) n2 = []"
      using g by simp_all
    from e1 n1(2) have same: "jwtToken (handlers w1 c) = jwtToken (handlers w c)"
      by (simp add: stored_after_def)
    from a assms(3) have "own1" "own2" by simp_all
    with e1 e2 n1(3) n2(3) same show "\<forall>q \<in> set (n1 @ n2). Method q = ''GET'' \<or> Method q = ''PATCH'' \<longrightarrow>
          map_of (Header q) ''Authorization'' = auth_header (jwtToken (handlers w c))"
      by auto
  qed
  from s t h show ?thesis unfolding effect_def by blast
qed

lemma run_effect:
  "run env c ops w = (p, w') \<Longrightarrow> effect env c (\<forall>opn \<in> set ops. on_client c opn) w w'"
proof (induction ops arbitrary: w)
  case Nil
  then show ?case by (simp add: effect_refl)
next
  case (Cons opn ops)
  obtain p1 w1 where step: "exec_op env c opn w = (p1, w1)"
    by (cases "exec_op env c opn w")
  have e1: "effect env c (on_client c opn) w w1"
    by (rule exec_op_effect[OF step])
  show ?case
  proof (cases p1)
    case True
    with Cons.prems step have "w' = w1" by simp
    with e1 show ?thesis
      by (auto intro: effect_trans[OF _ effect_refl])
  next
    case False
    with Cons.prems step have "run env c ops w1 = (p, w')" by simp
    then have "effect env c (\<forall>opn \<in> set ops. on_client c opn) w1 w'"
      by (rule Cons.IH)
    with e1 show ?thesis
      by (auto intro: effect_trans)
  qed
qed

section \<open>Lemmas: the steps of the upload\<close>

lemma uploadFile_step1_Panic:
  "uploadFile_step1 env rh w = (Panic, w1) \<Longrightarrow> jwtToken (handlers w rh) = None"
  by (auto simp: uploadFile_step1_def client_Do_def split: option.splits sum.splits if_splits)

lemma uploadFile_step2_no_Panic:
  "uploadFile_step2 env amazonBean filePath w \<noteq> (Panic, w1)"
  by (auto simp: uploadFile_step2_def client_Do_def split: option.splits sum.splits if_splits)



lemma multipart_form_Inr:
  assumes "multipart_form env fs file = Inr parts"
  shows "\<exists>content. file = Inr content \<and> parts =
     [FormField ''key'' (Key fs),
      FormField ''x-amz-algorithm'' (XAmzAlgorithm fs),
      FormField ''x-amz-credential'' (XAmzCredential fs),
      FormField ''x-amz-date'' (XAmzDate fs),
      FormField ''policy'' (Policy fs),
      FormField ''x-amz-signature'' (XAmzSignature fs),
      FormField ''x-amz-security-token'' (XAmzSecurityToken fs),
      FormFile ''file'' (Key fs) content]"
  using assms
  by (auto simp: multipart_form_def form_fields_def split: option.splits sum.splits)

text \<open>
  Every way of step 1 or step 2 not to succeed leaves the Creative-Tonie as it was;
  the call then returns an error, unless the handler holds no token, where step 1
  panics.
\<close>

lemma uploadFile_failure_keeps_tonie:
  assumes "uploadFile env rh tonie filePath title w = (r, tonie', w')"
    and "case uploadFile_step1 env rh w of
           (Ok amazonBean, w1) \<Rightarrow> fst (uploadFile_step2 env amazonBean filePath w1) \<noteq> Ok ()
         | (failed, w1) \<Rightarrow> True"
  shows "r \<noteq> Ok () \<and> tonie' = tonie \<and> Chapters tonie' = Chapters tonie
           \<and> (jwtToken (handlers w rh) \<noteq> None \<longrightarrow> (\<exists>e. r = Err e))"
proof (cases "uploadFile_step1 env rh w")
  case (Pair r1 w1)
  show ?thesis
  proof (cases r1)
    case (Ok amazonBean)
    obtain r2 w2 where s2: "uploadFile_step2 env amazonBean filePath w1 = (r2, w2)"
      by (cases "uploadFile_step2 env amazonBean filePath w1")
    with assms(2) Pair Ok have "r2 \<noteq> Ok ()" by simp
    moreover have "r2 \<noteq> Panic"
      using s2 uploadFile_step2_no_Panic by blast
    ultimately obtain e where "r2 = Err e"
      by (cases r2) auto
    with assms(1) Pair Ok s2 show ?thesis
      by (auto simp: uploadFile_def)
  next
    case (Err e)
    with assms(1) Pair show ?thesis
      by (auto simp: uploadFile_def)
  next
    case Panic
    with Pair have "jwtToken (handlers w rh) = None"
      by (simp add: uploadFile_step1_Panic)
    with assms(1) Pair Panic show ?thesis
      by (auto simp: uploadFile_def)
  qed
qed

section \<open>Lemmas: the example server at work\<close>

lemmas example_defs =
  example_env_def example_transport_def example_world_def logged_in_world_def
  example_token_1_def example_token_2_def example_bean_def example_household_def
  example_tonie_def example_refreshed_def chapter_1_def chapter_2_def chapter_3_def
  token_body_1_def token_body_2_def ticket_body_def tonie_body_def

lemmas url_defs = openIDConnect_def fileUpload_def fileUploadAmazon_def session_def me_def
  households_def creativeTonie_def creativeTonies_def


lemma example_step2_missing:
  "uploadFile_step2 example_env example_bean ''/missing.mp3'' w =
     (Err ''failed to open file: open /missing.mp3: no such file or directory'', w)"
  by (simp add: uploadFile_step2_def example_env_def)

lemma example_step2:
  "uploadFile_step2 example_env example_bean ''/tmp/a.mp3'' w =
     (Ok (), w\<lparr>sent := sent w @ [s3_request example_env
        [FormField ''key'' ''k1'', FormField ''x-amz-algorithm'' [],
         FormField ''x-amz-credential'' [], FormField ''x-amz-date'' [],
         FormField ''policy'' [], FormField ''x-amz-signature'' [],
         FormField ''x-amz-security-token'' [], FormFile ''file'' ''k1'' ''RIFF'']]\<rparr>)"
  by (simp add: uploadFile_step2_def multipart_form_def form_fields_def client_Do_def
      example_env_def example_transport_def example_bean_def s3_request_def url_defs)


section \<open>Lemmas: a request that is answered\<close>

lemma executeGetRequest_response:
  assumes "http_NewRequest env ''GET'' url = None"
    and "transport env (sent w) (get_request (jwtToken (handlers w rh)) url) = Inr resp"
  shows "executeGetRequest env rh url decode w =
           ((if StatusCode resp \<noteq> 200 then Err (status_error ''request failed'' resp)
             else case decode (Body resp) of
                    Inl e \<Rightarrow> Err (''failed to decode response: '' @ e)
                  | Inr v \<Rightarrow> Ok v),
            w\<lparr>sent := sent w @ [get_request (jwtToken (handlers w rh)) url]\<rparr>)"
  using assms
  by (simp add: executeGetRequest_def client_Do_def split: sum.splits)

lemma executePatchRequest_response:
  assumes "http_NewRequest env ''PATCH'' url = None"
    and "transport env (sent w) (patch_request (jwtToken (handlers w rh)) url b) = Inr resp"
  shows "executePatchRequest env rh url b w =
           ((if StatusCode resp \<noteq> 200 \<and> StatusCode resp \<noteq> 204
             then Err (status_error ''request failed'' resp) else Ok ()),
            w\<lparr>sent := sent w @ [patch_request (jwtToken (handlers w rh)) url b]\<rparr>)"
  using assms
  by (simp add: executePatchRequest_def client_Do_def)

lemma example_GetHouseholds:
  "GetHouseholds example_env 0 logged_in_world =
     (Err ''failed to decode response: EOF'',
      logged_in_world\<lparr>sent := sent logged_in_world @ [get_request (Some example_token_1) households]\<rparr>)"
  by (simp add: GetHouseholds_def getHouseholds_def executeGetRequest_def client_Do_def
      get_request_def bearer_def example_env_def example_transport_def logged_in_world_def url_defs)

section \<open>Lemmas: the encoding of a Creative-Tonie\<close>

lemma marshal_float_Inr:
  "(\<exists>j. marshal_float f = Inr j) \<longleftrightarrow> \<not> float_unsupported f"
  by (simp add: marshal_float_def)










lemma example_marshal:
  "marshal_CreativeTonie (example_tonie\<lparr>CreativeTonie.Name := ''Lion''\<rparr>) = Inr (JObject
     [(''id'', JString ''t1''), (''name'', JString ''Lion''), (''live'', JBool False),
      (''private'', JBool True), (''imageUrl'', JString []), (''transcodingErrors'', JNull),
      (''transcoding'', JBool False), (''secondsPresent'', JNumber 0),
      (''secondsRemaining'', JNumber 0), (''chaptersPresent'', JInt 3),
      (''chaptersRemaining'', JInt 96),
      (''chapters'', JArray
         [JObject [(''id'', JString ''c1''), (''file'', JString ''f-1''), (''title'', JString ''Intro''),
                   (''seconds'', JNumber 0), (''transcoding'', JBool False)],
          JObject [(''id'', JString ''c2''), (''file'', JString ''f-2''), (''title'', JString ''Story''),
                   (''seconds'', JNumber 0), (''transcoding'', JBool False)],
          JObject [(''id'', JString ''c1''), (''file'', JString ''f-3''), (''title'', JString ''Outro''),
                   (''seconds'', JNumber 0), (''transcoding'', JBool False)]]),
      (''householdId'', JString ''h1'')])"
  by (simp add: marshal_CreativeTonie_def marshal_Chapter_def marshal_float_def
      float_unsupported_def example_tonie_def chapter_1_def chapter_2_def chapter_3_def)

lemma example_patch:
  "executePatchRequest example_env rh url b w =
     (Ok (), w\<lparr>sent := sent w @ [patch_request (jwtToken (handlers w rh)) url b]\<rparr>)"
  by (simp add: executePatchRequest_def client_Do_def patch_request_def example_env_def
      example_transport_def)

lemma example_Commit:
  "Commit example_env (example_tonie\<lparr>CreativeTonie.Name := ''Lion''\<rparr>) logged_in_world =
     (Ok (), logged_in_world\<lparr>sent := sent logged_in_world @
        [patch_request (Some example_token_1) (creativeTonie ''h1'' ''t1'')
           (JSONBody (JObject
     [(''id'', JString ''t1''), (''name'', JString ''Lion''), (''live'', JBool False),
      (''private'', JBool True), (''imageUrl'', JString []), (''transcodingErrors'', JNull),
      (''transcoding'', JBool False), (''secondsPresent'', JNumber 0),
      (''secondsRemaining'', JNumber 0), (''chaptersPresent'', JInt 3),
      (''chaptersRemaining'', JInt 96),
      (''chapters'', JArray
         [JObject [(''id'', JString ''c1''), (''file'', JString ''f-1''), (''title'', JString ''Intro''),
                   (''seconds'', JNumber 0), (''transcoding'', JBool False)],
          JObject [(''id'', JString ''c2''), (''file'', JString ''f-2''), (''title'', JString ''Story''),
                   (''seconds'', JNumber 0), (''transcoding'', JBool False)],
          JObject [(''id'', JString ''c1''), (''file'', JString ''f-3''), (''title'', JString ''Outro''),
                   (''seconds'', JNumber 0), (''transcoding'', JBool False)]]),
      (''householdId'', JString ''h1'')]))]\<rparr>)"
proof -
  have a: "requestHandler (example_tonie\<lparr>CreativeTonie.Name := ''Lion''\<rparr>) = Some 0"
    "household (example_tonie\<lparr>CreativeTonie.Name := ''Lion''\<rparr>) = Some example_household"
    "CreativeTonie.ID (example_tonie\<lparr>CreativeTonie.Name := ''Lion''\<rparr>) = ''t1''"
    by (simp_all add: example_tonie_def)
  have b: "Household.ID example_household = ''h1''"
    by (simp add: example_household_def)
  have c: "jwtToken (handlers logged_in_world 0) = Some example_token_1"
    by (simp add: logged_in_world_def)
  show ?thesis
    by (simp add: Commit_def commitTonie_def a b c example_marshal example_patch)
qed

section \<open>Lemmas: a successful GET and refresh\<close>

lemma executeGetRequest_Ok:
  assumes "executeGetRequest env rh url decode w = (Ok v, w')"
  shows "\<exists>resp. transport env (sent w) (get_request (jwtToken (handlers w rh)) url) = Inr resp
           \<and> StatusCode resp = 200 \<and> decode (Body resp) = Inr v
           \<and> w' = w\<lparr>sent := sent w @ [get_request (jwtToken (handlers w rh)) url]\<rparr>"
  using assms
  by (auto simp: executeGetRequest_def client_Do_def split: option.splits sum.splits if_splits)

lemma refreshTonie_Ok:
  assumes "refreshTonie env rh tonie w = (Ok refreshed, w')"
  shows "\<exists>h resp res. household tonie = Some h
           \<and> transport env (sent w)
                (get_request (jwtToken (handlers w rh))
                   (creativeTonie (Household.ID h) (CreativeTonie.ID tonie))) = Inr resp
           \<and> StatusCode resp = 200 \<and> decode_CreativeTonie env (Body resp) = Inr res
           \<and> refreshed = res\<lparr>household := household tonie, requestHandler := Some rh\<rparr>
           \<and> w' = w\<lparr>sent := sent w @ [get_request (jwtToken (handlers w rh))
                   (creativeTonie (Household.ID h) (CreativeTonie.ID tonie))]\<rparr>"
proof (cases "household tonie")
  case None
  with assms show ?thesis
    by (simp add: refreshTonie_def)
next
  case (Some h)
  obtain r1 w1 where g: "executeGetRequest env rh
      (creativeTonie (Household.ID h) (CreativeTonie.ID tonie)) (decode_CreativeTonie env) w = (r1, w1)"
    by (cases "executeGetRequest env rh
      (creativeTonie (Household.ID h) (CreativeTonie.ID tonie)) (decode_CreativeTonie env) w")
  with assms Some obtain res where r: "r1 = Ok res" "w' = w1"
    "refreshed = res\<lparr>household := household tonie, requestHandler := Some rh\<rparr>"
    by (cases r1) (auto simp: refreshTonie_def)
  from executeGetRequest_Ok[OF g[unfolded r(1)]] Some r show ?thesis
    by auto
qed

lemma example_Refresh:
  "Refresh example_env example_tonie logged_in_world =
     (Ok (),
      example_refreshed\<lparr>household := Some example_household, requestHandler := Some 0\<rparr>,
      logged_in_world\<lparr>sent := sent logged_in_world @
         [get_request (Some example_token_1) (creativeTonie ''h1'' ''t1'')]\<rparr>)"
proof -
  have a: "requestHandler example_tonie = Some 0"
    "household example_tonie = Some example_household"
    "CreativeTonie.ID example_tonie = ''t1''"
    by (simp_all add: example_tonie_def)
  have b: "Household.ID example_household = ''h1''"
    by (simp add: example_household_def)
  have c: "jwtToken (handlers logged_in_world 0) = Some example_token_1"
    by (simp add: logged_in_world_def)
  have t: "transport example_env (sent logged_in_world)
             (get_request (Some example_token_1) (creativeTonie ''h1'' ''t1''))
           = Inr \<lparr>StatusCode = 200, Body = tonie_body\<rparr>"
    by (simp add: example_env_def example_transport_def get_request_def)
  have n: "http_NewRequest example_env ''GET'' (creativeTonie ''h1'' ''t1'') = None"
    by (simp add: example_env_def)
  have d: "decode_CreativeTonie example_env tonie_body = Inr example_refreshed"
    by (simp add: example_env_def)
  have g: "executeGetRequest example_env 0 (creativeTonie ''h1'' ''t1'')
             (decode_CreativeTonie example_env) logged_in_world =
           (Ok example_refreshed, logged_in_world\<lparr>sent := sent logged_in_world @
              [get_request (Some example_token_1) (creativeTonie ''h1'' ''t1'')]\<rparr>)"
    using executeGetRequest_response[OF n, of logged_in_world 0, unfolded c, OF t,
        of "decode_CreativeTonie example_env"]
    by (simp add: d)
  have r: "refreshTonie example_env 0 example_tonie logged_in_world =
           (Ok (example_refreshed\<lparr>household := Some example_household, requestHandler := Some 0\<rparr>),
            logged_in_world\<lparr>sent := sent logged_in_world @
              [get_request (Some example_token_1) (creativeTonie ''h1'' ''t1'')]\<rparr>)"
    by (simp add: refreshTonie_def a b g)
  show ?thesis
    by (simp add: Refresh_def a(1) r) (simp add: example_tonie_def example_refreshed_def)
qed

section \<open>Lemmas: logins and runs on the example server\<close>

lemma login_Ok:
  assumes "login env rh loginData w = (Ok (), w1)"
  shows "\<exists>resp token. transport env (sent w) (login_request loginData) = Inr resp
           \<and> StatusCode resp = 200
           \<and> decode_JWTToken env (Body resp) = Inr token
           \<and> jwtToken (handlers w1 rh) = Some token
           \<and> (\<forall>rh'. rh' \<noteq> rh \<longrightarrow> handlers w1 rh' = handlers w rh')
           \<and> sent w1 = sent w @ [login_request loginData]"
  using assms
  by (auto simp: login_def client_Do_def split: option.splits sum.splits if_splits)

lemma quiet_handlers_granted:
  assumes "quiet rh w w'"
  shows "handlers w' = handlers w
           \<and> granted env (sent w) (drop (length (sent w)) (sent w')) = []"
proof -
  from assms obtain new where h: "handlers w' = handlers w" and s: "sent w' = sent w @ new"
    and a: "\<forall>q \<in> set new. authorised (jwtToken (handlers w rh)) q"
    unfolding quiet_def by auto
  from a have "granted env (sent w) new = []"
    by (rule granted_authorised)
  with h s show ?thesis
    by simp
qed

lemma exec_op_other_quiet:
  assumes "\<forall>u pw. opn \<noteq> OpLogin u pw" and "exec_op env c opn w = (p, w')"
  shows "\<exists>rh. quiet rh w w'"
proof (cases opn)
  case (OpLogin u pw)
  with assms(1) show ?thesis by simp
next
  case OpGetMe
  with assms(2) show ?thesis
    by (auto simp: GetMe_def getMe_def split: prod.splits dest!: executeGetRequest_quiet)
next
  case OpGetHouseholds
  with assms(2) show ?thesis
    by (auto simp: GetHouseholds_def getHouseholds_def split: prod.splits
        dest!: executeGetRequest_quiet)
next
  case (OpGetCreativeTonies hh)
  with assms(2) show ?thesis
    by (auto simp: GetCreativeTonies_def split: prod.splits dest!: getCreativeTonies_quiet)
next
  case OpDisconnect
  with assms(2) show ?thesis
    by (auto split: prod.splits dest!: disconnect_quiet)
next
  case (OpRefresh ct)
  with assms(2) show ?thesis
    by (auto split: prod.splits dest!: Refresh_quiet[where c = c])
next
  case (OpCommit ct)
  with assms(2) show ?thesis
    by (auto split: prod.splits dest!: Commit_quiet[where c = c])
next
  case (OpUploadFile ct title filePath)
  with assms(2) show ?thesis
    by (auto split: prod.splits dest!: UploadFile_quiet[where c = c])
qed

lemma granted_login_request:
  "granted env hist [login_request loginData] =
     (case transport env hist (login_request loginData) of
        Inl e \<Rightarrow> []
      | Inr resp \<Rightarrow>
          if StatusCode resp = 200 then
            (case decode_JWTToken env (Body resp) of Inl e \<Rightarrow> [] | Inr token \<Rightarrow> [token])
          else [])"
  by (simp add: is_login_request_def login_request_def)

lemma login_Ok_granted:
  assumes "login env rh loginData w = (Ok (), w1)"
  shows "\<exists>resp token. transport env (sent w) (login_request loginData) = Inr resp
           \<and> StatusCode resp = 200
           \<and> decode_JWTToken env (Body resp) = Inr token
           \<and> jwtToken (handlers w1 rh) = Some token
           \<and> granted env (sent w) (drop (length (sent w)) (sent w1)) = [token]"
proof -
  from login_Ok[OF assms] obtain resp token where
    l: "transport env (sent w) (login_request loginData) = Inr resp"
       "StatusCode resp = 200" "decode_JWTToken env (Body resp) = Inr token"
       "jwtToken (handlers w1 rh) = Some token"
       "sent w1 = sent w @ [login_request loginData]"
    by auto
  have d: "drop (length (sent w)) (sent w1) = [login_request loginData]"
    by (simp add: l(5))
  have "granted env (sent w) (drop (length (sent w)) (sent w1)) = [token]"
    unfolding d granted_login_request l(1) by (simp add: l(2) l(3))
  with l(1-4) show ?thesis
    by (intro exI[of _ resp] exI[of _ token] conjI)
qed

lemma login_failed:
  assumes "login env rh loginData w = (r, w1)" and "r \<noteq> Ok ()"
  shows "handlers w1 = handlers w
           \<and> granted env (sent w) (drop (length (sent w)) (sent w1)) = []"
proof (cases "http_NewRequest env ''POST'' openIDConnect")
  case (Some e)
  with assms show ?thesis
    by (auto simp: login_def)
next
  case None
  with assms have s: "sent w1 = sent w @ [login_request loginData]"
    and h: "handlers w1 = handlers w"
    and g: "granted env (sent w) [login_request loginData] = []"
    by (auto simp: login_def client_Do_def granted_login_request
        split: sum.splits if_splits)
  then show ?thesis
    by simp
qed

lemma example_login:
  "Client_Login example_env 0 ''a@b.com'' ''pw'' example_world = (Ok (), logged_in_world)"
  by (simp add: Client_Login_def login_def client_Do_def login_request_def example_env_def
      example_transport_def example_world_def logged_in_world_def fun_eq_iff)

lemma example_login_again:
  "Client_Login example_env 0 ''a@b.com'' ''pw'' logged_in_world =
     (Ok (),
      \<lparr>handlers = (\<lambda>rh. \<lparr>jwtToken = (if rh = 0 then Some example_token_2 else None)\<rparr>),
       sent = [login_request \<lparr>Login.Email = ''a@b.com'', Password = ''pw''\<rparr>,
               login_request \<lparr>Login.Email = ''a@b.com'', Password = ''pw''\<rparr>]\<rparr>)"
  by (simp add: Client_Login_def login_def client_Do_def login_request_def example_env_def
      example_transport_def logged_in_world_def fun_eq_iff token_body_1_def token_body_2_def)

lemma example_GetMe:
  "GetMe example_env 0 w =
     (Err ''request failed with status 404: not found'',
      w\<lparr>sent := sent w @ [get_request (jwtToken (handlers w 0)) me]\<rparr>)"
  by (simp add: GetMe_def getMe_def executeGetRequest_def client_Do_def get_request_def
      status_error_def itoa_def digits.simps digit_char_def
      example_env_def example_transport_def url_defs)

lemma example_two_logins:
  "run example_env 0 [OpLogin ''a@b.com'' ''pw'', OpLogin ''a@b.com'' ''pw''] example_world =
     (False,
      \<lparr>handlers = (\<lambda>rh. \<lparr>jwtToken = (if rh = 0 then Some example_token_2 else None)\<rparr>),
       sent = [login_request \<lparr>Login.Email = ''a@b.com'', Password = ''pw''\<rparr>,
               login_request \<lparr>Login.Email = ''a@b.com'', Password = ''pw''\<rparr>]\<rparr>)"
  by (simp add: example_login example_login_again)

lemma example_login_then_GetMe:
  "run example_env 0 [OpLogin ''a@b.com'' ''pw'', OpGetMe] logged_in_world =
     (False,
      \<lparr>handlers = (\<lambda>rh. \<lparr>jwtToken = (if rh = 0 then Some example_token_2 else None)\<rparr>),
       sent = [login_request \<lparr>Login.Email = ''a@b.com'', Password = ''pw''\<rparr>,
               login_request \<lparr>Login.Email = ''a@b.com'', Password = ''pw''\<rparr>,
               get_request (Some example_token_2) me]\<rparr>)"
  by (simp add: example_login_again example_GetMe)

lemma example_Commit_then_GetMe:
  "run example_env 0 [OpCommit (example_tonie\<lparr>CreativeTonie.Name := ''Lion''\<rparr>), OpGetMe]
     logged_in_world =
     (False,
      logged_in_world\<lparr>sent := sent logged_in_world @
        [patch_request (Some example_token_1) (creativeTonie ''h1'' ''t1'')
           (JSONBody (JObject
     [(''id'', JString ''t1''), (''name'', JString ''Lion''), (''live'', JBool False),
      (''private'', JBool True), (''imageUrl'', JString []), (''transcodingErrors'', JNull),
      (''transcoding'', JBool False), (''secondsPresent'', JNumber 0),
      (''secondsRemaining'', JNumber 0), (''chaptersPresent'', JInt 3),
      (''chaptersRemaining'', JInt 96),
      (''chapters'', JArray
         [JObject [(''id'', JString ''c1''), (''file'', JString ''f-1''), (''title'', JString ''Intro''),
                   (''seconds'', JNumber 0), (''transcoding'', JBool False)],
          JObject [(''id'', JString ''c2''), (''file'', JString ''f-2''), (''title'', JString ''Story''),
                   (''seconds'', JNumber 0), (''transcoding'', JBool False)],
          JObject [(''id'', JString ''c1''), (''file'', JString ''f-3''), (''title'', JString ''Outro''),
                   (''seconds'', JNumber 0), (''transcoding'', JBool False)]]),
      (''householdId'', JString ''h1'')])),
         get_request (Some example_token_1) me]\<rparr>)"
proof -
  have c: "jwtToken (handlers logged_in_world 0) = Some example_token_1"
    by (simp add: logged_in_world_def)
  show ?thesis
    by (simp add: example_Commit example_GetMe c)
qed

section \<open>The claims\<close>

text \<open>
  C1. The claim: whenever step 1 or step 2 of \<^verbatim>\<open>uploadFile\<close> fails, for any
  reason, the call returns an error and the chapter sequence is as before. The
  code at a handler that holds no token: step 1 fails, by the panic of the
  unguarded \<^verbatim>\<open>rh.jwtToken.AccessToken\<close>, and \<^verbatim>\<open>uploadFile\<close> returns nothing, no
  error either; the Creative-Tonie is as before. (On every other failing path the
  call returns an error and the tonie is as before: \<open>uploadFile_failure_keeps_tonie\<close>.)
\<close>

theorem uploadFile_without_token_returns_no_error:
  "jwtToken (handlers example_world 0) = None
   \<and> uploadFile_step1 example_env 0 example_world = (Panic, example_world)
   \<and> uploadFile example_env 0 example_tonie ''/tmp/a.mp3'' ''Song'' example_world
        = (Panic, example_tonie, example_world)"
  by (simp add: uploadFile_def uploadFile_step1_def example_env_def example_world_def)



text \<open>
  C8. \<^verbatim>\<open>DeleteChapter\<close> with a chapter returns normally and changes the chapter
  sequence only: it keeps, in order, exactly the chapters whose ID differs from the
  given chapter's, so the length goes down by the number of chapters with that ID.
  It is a function of the Creative-Tonie and the chapter alone: it has no access to
  the network. If no remaining chapter has the deleted chapter's title,
  \<^verbatim>\<open>FindChapterByTitle\<close> with that title then finds nothing.
  \<^verbatim>\<open>FindChapterByTitle\<close> returns the first chapter of the sequence whose title
  equals the given one, and nothing for every sequence without such a title, the
  empty one included.
\<close>

theorem DeleteChapter_then_FindChapterByTitle:
  "\<exists>ct'. DeleteChapter ct (Some ch) = Ok ct'
     \<and> ct' = ct\<lparr>Chapters := Chapters ct'\<rparr>
     \<and> elems (Chapters ct') = filter (\<lambda>c. Chapter.ID c \<noteq> Chapter.ID ch) (elems (Chapters ct))
     \<and> length (elems (Chapters ct'))
           + length (filter (\<lambda>c. Chapter.ID c = Chapter.ID ch) (elems (Chapters ct)))
         = length (elems (Chapters ct))
     \<and> ((\<forall>c \<in> set (elems (Chapters ct')). Title c \<noteq> Title ch)
           \<longrightarrow> FindChapterByTitle ct' (Title ch) = None)
     \<and> FindChapterByTitle ct title = List.find (\<lambda>c. Title c = title) (elems (Chapters ct))
     \<and> ((\<forall>c \<in> set (elems (Chapters ct)). Title c \<noteq> title)
           \<longrightarrow> FindChapterByTitle ct title = None)"
  by (simp add: DeleteChapter_def FindChapterByTitle_def FindChapterByTitle_loop_find
      DeleteChapter_loop_elems filter_ID_length find_None_iff)

theorem DeleteChapter_then_FindChapterByTitle_witness:
  "DeleteChapter example_tonie (Some chapter_1) = Ok (example_tonie\<lparr>Chapters := Slice [chapter_2]\<rparr>)
   \<and> length (elems (Chapters example_tonie)) = 3
   \<and> length (filter (\<lambda>c. Chapter.ID c = Chapter.ID chapter_1) (elems (Chapters example_tonie))) = 2
   \<and> Title chapter_2 \<noteq> Title chapter_1
   \<and> FindChapterByTitle (example_tonie\<lparr>Chapters := Slice [chapter_2]\<rparr>) (Title chapter_1) = None
   \<and> Title chapter_1 \<noteq> ''intro'' \<and> Title chapter_2 \<noteq> ''intro'' \<and> Title chapter_3 \<noteq> ''intro''
   \<and> FindChapterByTitle example_tonie ''intro'' = None
   \<and> FindChapterByTitle example_tonie ''Intro'' = Some chapter_1"
proof -
  have d: "DeleteChapter example_tonie (Some chapter_1) = Ok (example_tonie\<lparr>Chapters := Slice [chapter_2]\<rparr>)"
    by (simp add: DeleteChapter_def append_slice_def example_tonie_def chapter_1_def
        chapter_2_def chapter_3_def)
  have l: "length (elems (Chapters example_tonie)) = 3"
    "length (filter (\<lambda>c. Chapter.ID c = Chapter.ID chapter_1) (elems (Chapters example_tonie))) = 2"
    by (simp_all add: example_tonie_def chapter_1_def chapter_2_def chapter_3_def)
  have h1: "\<forall>c \<in> set [chapter_2]. Title c \<noteq> Title chapter_1"
    by (simp add: chapter_1_def chapter_2_def)
  have h2: "\<forall>c \<in> set (elems (Chapters example_tonie)). Title c \<noteq> ''intro''"
    by (simp add: example_tonie_def chapter_1_def chapter_2_def chapter_3_def)
  from DeleteChapter_then_FindChapterByTitle[of example_tonie chapter_1 "''intro''"] d h1 h2
  have f: "FindChapterByTitle (example_tonie\<lparr>Chapters := Slice [chapter_2]\<rparr>) (Title chapter_1) = None
        \<and> FindChapterByTitle example_tonie ''intro'' = None"
    by auto
  have g: "FindChapterByTitle example_tonie ''Intro'' = Some chapter_1"
    by (simp add: FindChapterByTitle_def example_tonie_def chapter_1_def)
  have t: "Title chapter_2 \<noteq> Title chapter_1" "Title chapter_1 \<noteq> ''intro''"
    "Title chapter_2 \<noteq> ''intro''" "Title chapter_3 \<noteq> ''intro''"
    by (simp_all add: chapter_1_def chapter_2_def chapter_3_def)
  from d l f g t show ?thesis
    by blast
qed

text \<open>
  C9. Whatever the ticket's fields, a form that step 2 of the upload builds has the
  seven fields \<^verbatim>\<open>key\<close>, \<^verbatim>\<open>x-amz-algorithm\<close>, \<^verbatim>\<open>x-amz-credential\<close>,
  \<^verbatim>\<open>x-amz-date\<close>, \<^verbatim>\<open>policy\<close>, \<^verbatim>\<open>x-amz-signature\<close>,
  \<^verbatim>\<open>x-amz-security-token\<close> in this order, with the ticket's values, followed by
  the file content in a part named \<^verbatim>\<open>file\<close>; the form is built whenever the
  multipart writer does not fail; and a request that step 2 sends carries this form.
\<close>

theorem multipart_form_order:
  "(multipart_form env fs opened = Inr parts \<longrightarrow>
      (\<exists>content. opened = Inr content \<and> parts =
         [FormField ''key'' (Key fs),
          FormField ''x-amz-algorithm'' (XAmzAlgorithm fs),
          FormField ''x-amz-credential'' (XAmzCredential fs),
          FormField ''x-amz-date'' (XAmzDate fs),
          FormField ''policy'' (Policy fs),
          FormField ''x-amz-signature'' (XAmzSignature fs),
          FormField ''x-amz-security-token'' (XAmzSecurityToken fs),
          FormFile ''file'' (Key fs) content]))
   \<and> ((\<forall>name. multipart_WriteField env name = None) \<and> multipart_CreateFormFile env = None
        \<and> multipart_Close env = None \<longrightarrow>
      multipart_form env fs (Inr content) = Inr
         [FormField ''key'' (Key fs),
          FormField ''x-amz-algorithm'' (XAmzAlgorithm fs),
          FormField ''x-amz-credential'' (XAmzCredential fs),
          FormField ''x-amz-date'' (XAmzDate fs),
          FormField ''policy'' (Policy fs),
          FormField ''x-amz-signature'' (XAmzSignature fs),
          FormField ''x-amz-security-token'' (XAmzSecurityToken fs),
          FormFile ''file'' (Key fs) content])
   \<and> (uploadFile_step2 env amazonBean filePath w = (r, w') \<longrightarrow>
        sent w' = sent w \<or>
        (\<exists>content. os_Open env filePath = Inr (Inr content) \<and>
           sent w' = sent w @ [s3_request env
             [FormField ''key'' (Key (Fields (Request amazonBean))),
              FormField ''x-amz-algorithm'' (XAmzAlgorithm (Fields (Request amazonBean))),
              FormField ''x-amz-credential'' (XAmzCredential (Fields (Request amazonBean))),
              FormField ''x-amz-date'' (XAmzDate (Fields (Request amazonBean))),
              FormField ''policy'' (Policy (Fields (Request amazonBean))),
              FormField ''x-amz-signature'' (XAmzSignature (Fields (Request amazonBean))),
              FormField ''x-amz-security-token'' (XAmzSecurityToken (Fields (Request amazonBean))),
              FormFile ''file'' (Key (Fields (Request amazonBean))) content]]))"
proof (intro conjI impI)
  assume "multipart_form env fs opened = Inr parts"
  then show "\<exists>content. opened = Inr content \<and> parts =
         [FormField ''key'' (Key fs),
          FormField ''x-amz-algorithm'' (XAmzAlgorithm fs),
          FormField ''x-amz-credential'' (XAmzCredential fs),
          FormField ''x-amz-date'' (XAmzDate fs),
          FormField ''policy'' (Policy fs),
          FormField ''x-amz-signature'' (XAmzSignature fs),
          FormField ''x-amz-security-token'' (XAmzSecurityToken fs),
          FormFile ''file'' (Key fs) content]"
    by (rule multipart_form_Inr)
next
  assume "(\<forall>name. multipart_WriteField env name = None) \<and> multipart_CreateFormFile env = None
        \<and> multipart_Close env = None"
  then show "multipart_form env fs (Inr content) = Inr
         [FormField ''key'' (Key fs),
          FormField ''x-amz-algorithm'' (XAmzAlgorithm fs),
          FormField ''x-amz-credential'' (XAmzCredential fs),
          FormField ''x-amz-date'' (XAmzDate fs),
          FormField ''policy'' (Policy fs),
          FormField ''x-amz-signature'' (XAmzSignature fs),
          FormField ''x-amz-security-token'' (XAmzSecurityToken fs),
          FormFile ''file'' (Key fs) content]"
    by (simp add: multipart_form_def form_fields_def)
next
  assume a: "uploadFile_step2 env amazonBean filePath w = (r, w')"
  show "sent w' = sent w \<or>
        (\<exists>content. os_Open env filePath = Inr (Inr content) \<and>
           sent w' = sent w @ [s3_request env
             [FormField ''key'' (Key (Fields (Request amazonBean))),
              FormField ''x-amz-algorithm'' (XAmzAlgorithm (Fields (Request amazonBean))),
              FormField ''x-amz-credential'' (XAmzCredential (Fields (Request amazonBean))),
              FormField ''x-amz-date'' (XAmzDate (Fields (Request amazonBean))),
              FormField ''policy'' (Policy (Fields (Request amazonBean))),
              FormField ''x-amz-signature'' (XAmzSignature (Fields (Request amazonBean))),
              FormField ''x-amz-security-token'' (XAmzSecurityToken (Fields (Request amazonBean))),
              FormFile ''file'' (Key (Fields (Request amazonBean))) content]])"
  proof (cases "sent w' = sent w")
    case True
    then show ?thesis by simp
  next
    case False
    with a obtain opened parts where o: "os_Open env filePath = Inr opened"
      and m: "multipart_form env (Fields (Request amazonBean)) opened = Inr parts"
      and s: "sent w' = sent w @ [s3_request env parts]"
      by (auto simp: uploadFile_step2_def client_Do_def
          split: option.splits sum.splits if_splits)
    from multipart_form_Inr[OF m] o s show ?thesis
      by auto
  qed
qed

theorem multipart_form_order_witness:
  "(\<forall>name. multipart_WriteField example_env name = None)
   \<and> multipart_CreateFormFile example_env = None \<and> multipart_Close example_env = None
   \<and> multipart_form example_env (Fields (Request example_bean)) (Inr ''RIFF'') = Inr
        [FormField ''key'' ''k1'', FormField ''x-amz-algorithm'' [],
         FormField ''x-amz-credential'' [], FormField ''x-amz-date'' [],
         FormField ''policy'' [], FormField ''x-amz-signature'' [],
         FormField ''x-amz-security-token'' [], FormFile ''file'' ''k1'' ''RIFF'']
   \<and> sent (snd (uploadFile_step2 example_env example_bean ''/tmp/a.mp3'' example_world)) =
        [s3_request example_env
          [FormField ''key'' ''k1'', FormField ''x-amz-algorithm'' [],
           FormField ''x-amz-credential'' [], FormField ''x-amz-date'' [],
           FormField ''policy'' [], FormField ''x-amz-signature'' [],
           FormField ''x-amz-security-token'' [], FormFile ''file'' ''k1'' ''RIFF'']]"
proof -
  let ?s = "uploadFile_step2 example_env example_bean ''/tmp/a.mp3'' example_world"
  have h: "(\<forall>name. multipart_WriteField example_env name = None)
     \<and> multipart_CreateFormFile example_env = None \<and> multipart_Close example_env = None"
    by (simp add: example_env_def)
  have e: "?s = (fst ?s, snd ?s)"
    by simp
  have n: "sent (snd ?s) \<noteq> sent example_world"
    by (simp add: example_step2 example_world_def)
  have o: "os_Open example_env ''/tmp/a.mp3'' = Inr (Inr ''RIFF'')"
    by (simp add: example_env_def)
  note t = multipart_form_order[of example_env "Fields (Request example_bean)" "Inr ''RIFF''" "[]"
      "''RIFF''" example_bean "''/tmp/a.mp3''" example_world "fst ?s" "snd ?s"]
  note c2 = t[THEN conjunct2, THEN conjunct1, THEN mp, OF h]
  note c3 = t[THEN conjunct2, THEN conjunct2, THEN mp, OF e]
  from c3 n o have c4: "sent (snd ?s) = sent example_world @ [s3_request example_env
             [FormField ''key'' (Key (Fields (Request example_bean))),
              FormField ''x-amz-algorithm'' (XAmzAlgorithm (Fields (Request example_bean))),
              FormField ''x-amz-credential'' (XAmzCredential (Fields (Request example_bean))),
              FormField ''x-amz-date'' (XAmzDate (Fields (Request example_bean))),
              FormField ''policy'' (Policy (Fields (Request example_bean))),
              FormField ''x-amz-signature'' (XAmzSignature (Fields (Request example_bean))),
              FormField ''x-amz-security-token'' (XAmzSecurityToken (Fields (Request example_bean))),
              FormFile ''file'' (Key (Fields (Request example_bean))) ''RIFF'']]"
    by auto
  from h c2 c4 show ?thesis
    by (simp add: example_bean_def example_world_def)
qed

text \<open>
  C10. \<^verbatim>\<open>UploadFile\<close> on a Creative-Tonie that is wired to a handler without a
  token returns no error value: it panics in step 1, before any request is sent
  (\<^verbatim>\<open>http.NewRequest\<close> accepts the constant upload URL). GET, PATCH and
  \<^verbatim>\<open>disconnect\<close> on the same handler do not panic; they send their request
  without an \<^verbatim>\<open>Authorization\<close> header.
\<close>

theorem UploadFile_without_token_panics:
  assumes "requestHandler ct = Some rh"
    and "jwtToken (handlers w rh) = None"
    and "http_NewRequest env ''POST'' fileUpload = None"
  shows "UploadFile env ct title filePath w = (Panic, ct, w)
       \<and> fst (executeGetRequest env rh url decode w) \<noteq> Panic
       \<and> fst (executePatchRequest env rh url b w) \<noteq> Panic
       \<and> fst (disconnect env rh w) \<noteq> Panic
       \<and> Header (get_request (jwtToken (handlers w rh)) url) = []
       \<and> Header (patch_request (jwtToken (handlers w rh)) url b) = [(''Content-Type'', contentTypeJSON)]
       \<and> Header (disconnect_request (jwtToken (handlers w rh))) = []"
  using assms
  by (auto simp: UploadFile_def uploadFile_def uploadFile_step1_def executeGetRequest_def
      executePatchRequest_def disconnect_def client_Do_def get_request_def patch_request_def
      disconnect_request_def bearer_def
      split: option.splits sum.splits)

theorem UploadFile_without_token_panics_witness:
  "requestHandler example_tonie = Some 0
   \<and> jwtToken (handlers example_world 0) = None
   \<and> http_NewRequest example_env ''POST'' fileUpload = None
   \<and> UploadFile example_env example_tonie ''Song'' ''/tmp/a.mp3'' example_world
        = (Panic, example_tonie, example_world)
   \<and> fst (executeGetRequest example_env 0 me (decode_Me example_env) example_world)
        = Err ''request failed with status 404: not found''"
proof -
  have h1: "requestHandler example_tonie = Some 0"
    by (simp add: example_tonie_def)
  have h2: "jwtToken (handlers example_world 0) = None"
    by (simp add: example_world_def)
  have h3: "http_NewRequest example_env ''POST'' fileUpload = None"
    by (simp add: example_env_def)
  have g: "fst (executeGetRequest example_env 0 me (decode_Me example_env) example_world)
        = Err ''request failed with status 404: not found''"
    by (simp add: executeGetRequest_def client_Do_def get_request_def bearer_def status_error_def
        itoa_def digits.simps digit_char_def example_env_def example_transport_def example_world_def url_defs)
  note p = UploadFile_without_token_panics[OF h1 h2 h3,
      where title = "''Song''" and filePath = "''/tmp/a.mp3''", THEN conjunct1]
  from p h1 h2 h3 g show ?thesis
    by simp
qed

text \<open>
  C5, as the code has it. When a GET is answered, it returns the status error
  exactly when the status is not 200; with status 200 it decodes the body and
  returns an error if and only if decoding fails, the decoder's. When a PATCH is
  answered, it returns an error exactly when the status is neither 200 nor 204.
  A status error's message is \<^verbatim>\<open>request failed with status\<close>, the status in
  decimal, a colon and the raw body, whatever the decoder: the body is not decoded.
  Neither call changes a handler.
\<close>

theorem request_status_errors:
  assumes "http_NewRequest env ''GET'' url = None"
    and "transport env (sent w) (get_request (jwtToken (handlers w rh)) url) = Inr resp"
    and "http_NewRequest env ''PATCH'' purl = None"
    and "transport env (sent w) (patch_request (jwtToken (handlers w rh)) purl b) = Inr presp"
  shows "fst (executeGetRequest env rh url decode w) =
           (if StatusCode resp \<noteq> 200
            then Err (''request failed with status '' @ itoa (StatusCode resp) @ '': '' @ Body resp)
            else case decode (Body resp) of
                   Inl e \<Rightarrow> Err (''failed to decode response: '' @ e)
                 | Inr v \<Rightarrow> Ok v)
       \<and> ((\<exists>e. fst (executeGetRequest env rh url decode w) = Err e) \<longleftrightarrow>
            StatusCode resp \<noteq> 200 \<or> (\<exists>e. decode (Body resp) = Inl e))
       \<and> fst (executePatchRequest env rh purl b w) =
           (if StatusCode presp \<noteq> 200 \<and> StatusCode presp \<noteq> 204
            then Err (''request failed with status '' @ itoa (StatusCode presp) @ '': '' @ Body presp)
            else Ok ())
       \<and> ((\<exists>e. fst (executePatchRequest env rh purl b w) = Err e) \<longleftrightarrow>
            StatusCode presp \<noteq> 200 \<and> StatusCode presp \<noteq> 204)
       \<and> handlers (snd (executeGetRequest env rh url decode w)) = handlers w
       \<and> handlers (snd (executePatchRequest env rh purl b w)) = handlers w"
  unfolding executeGetRequest_response[OF assms(1,2)] executePatchRequest_response[OF assms(3,4)]
  by (auto simp: status_error_def split: sum.splits)

theorem request_status_errors_witness:
  "http_NewRequest example_env ''GET'' me = None
   \<and> transport example_env (sent logged_in_world)
        (get_request (jwtToken (handlers logged_in_world 0)) me)
        = Inr \<lparr>StatusCode = 404, Body = ''not found''\<rparr>
   \<and> http_NewRequest example_env ''PATCH'' (creativeTonie ''h1'' ''t1'') = None
   \<and> transport example_env (sent logged_in_world)
        (patch_request (jwtToken (handlers logged_in_world 0)) (creativeTonie ''h1'' ''t1'') NoBody)
        = Inr \<lparr>StatusCode = 204, Body = []\<rparr>
   \<and> fst (executeGetRequest example_env 0 me (decode_Me example_env) logged_in_world)
        = Err ''request failed with status 404: not found''
   \<and> fst (executePatchRequest example_env 0 (creativeTonie ''h1'' ''t1'') NoBody logged_in_world)
        = Ok ()"
proof -
  have h1: "http_NewRequest example_env ''GET'' me = None"
    and h3: "http_NewRequest example_env ''PATCH'' (creativeTonie ''h1'' ''t1'') = None"
    by (simp_all add: example_env_def)
  have h2: "transport example_env (sent logged_in_world)
        (get_request (jwtToken (handlers logged_in_world 0)) me)
        = Inr \<lparr>StatusCode = 404, Body = ''not found''\<rparr>"
    by (simp add: get_request_def example_env_def example_transport_def url_defs)
  have h4: "transport example_env (sent logged_in_world)
        (patch_request (jwtToken (handlers logged_in_world 0)) (creativeTonie ''h1'' ''t1'') NoBody)
        = Inr \<lparr>StatusCode = 204, Body = []\<rparr>"
    by (simp add: patch_request_def example_env_def example_transport_def url_defs)
  note t = request_status_errors[OF h1 h2 h3 h4, where decode = "decode_Me example_env"]
  have g: "fst (executeGetRequest example_env 0 me (decode_Me example_env) logged_in_world)
        = Err ''request failed with status 404: not found''"
    using t[THEN conjunct1] by (simp add: itoa_def digits.simps digit_char_def)
  have p: "fst (executePatchRequest example_env 0 (creativeTonie ''h1'' ''t1'') NoBody logged_in_world)
        = Ok ()"
    using t[THEN conjunct2, THEN conjunct2, THEN conjunct1] by simp
  from h1 h2 h3 h4 g p show ?thesis
    by blast
qed

text \<open>
  C5 as stated fails: the household list is answered with status 200 and an empty
  body, and the GET returns an error, the decoder's.
\<close>

theorem GET_error_with_status_200:
  "transport example_env (sent logged_in_world) (get_request (Some example_token_1) households)
     = Inr \<lparr>StatusCode = 200, Body = []\<rparr>
   \<and> fst (GetHouseholds example_env 0 logged_in_world) = Err ''failed to decode response: EOF''
   \<and> sent (snd (GetHouseholds example_env 0 logged_in_world)) =
       sent logged_in_world @ [get_request (Some example_token_1) households]"
  by (simp add: example_GetHouseholds)
    (simp add: get_request_def bearer_def example_env_def example_transport_def url_defs)



text \<open>
  C7. A \<^verbatim>\<open>Refresh\<close> that succeeds was on a Creative-Tonie with a wired handler
  and a household; the GET of the tonie was answered with status 200 and a body
  that decodes, to the re-fetched tonie. The receiver after the call (\<^verbatim>\<open>Refresh\<close>
  returns only an error: the caller keeps the one object it had) has the re-fetched
  ID, name, live and private flags, image URL, transcoding errors and flag,
  seconds and chapters present and remaining, chapters and household id, and the
  household and handler references it had before. No handler is changed.
\<close>

theorem Refresh_overwrites_in_place:
  assumes "Refresh env ct w = (Ok (), ct', w')"
  shows "\<exists>rh h resp refreshed.
           requestHandler ct = Some rh \<and> household ct = Some h
         \<and> transport env (sent w)
              (get_request (jwtToken (handlers w rh))
                 (creativeTonie (Household.ID h) (CreativeTonie.ID ct))) = Inr resp
         \<and> StatusCode resp = 200
         \<and> decode_CreativeTonie env (Body resp) = Inr refreshed
         \<and> CreativeTonie.ID ct' = CreativeTonie.ID refreshed
         \<and> CreativeTonie.Name ct' = CreativeTonie.Name refreshed
         \<and> Live ct' = Live refreshed
         \<and> Private ct' = Private refreshed
         \<and> ImageURL ct' = ImageURL refreshed
         \<and> TranscodingErrors ct' = TranscodingErrors refreshed
         \<and> CreativeTonie.Transcoding ct' = CreativeTonie.Transcoding refreshed
         \<and> SecondsPresent ct' = SecondsPresent refreshed
         \<and> SecondsRemaining ct' = SecondsRemaining refreshed
         \<and> ChaptersPresent ct' = ChaptersPresent refreshed
         \<and> ChaptersRemaining ct' = ChaptersRemaining refreshed
         \<and> Chapters ct' = Chapters refreshed
         \<and> HouseholdID ct' = HouseholdID refreshed
         \<and> household ct' = household ct
         \<and> requestHandler ct' = requestHandler ct
         \<and> ct' = refreshed\<lparr>household := household ct, requestHandler := requestHandler ct\<rparr>
         \<and> handlers w' = handlers w"
proof -
  from assms obtain rh where rh: "requestHandler ct = Some rh"
    by (cases "requestHandler ct") (auto simp: Refresh_def)
  obtain r1 w1 where g: "refreshTonie env rh ct w = (r1, w1)"
    by (cases "refreshTonie env rh ct w")
  with assms rh obtain fetched where r: "r1 = Ok fetched" "w' = w1"
    and c: "ct' = ct\<lparr>CreativeTonie.ID := CreativeTonie.ID fetched,
                   CreativeTonie.Name := CreativeTonie.Name fetched,
                   Live := Live fetched,
                   Private := Private fetched,
                   ImageURL := ImageURL fetched,
                   TranscodingErrors := TranscodingErrors fetched,
                   CreativeTonie.Transcoding := CreativeTonie.Transcoding fetched,
                   SecondsPresent := SecondsPresent fetched,
                   SecondsRemaining := SecondsRemaining fetched,
                   ChaptersPresent := ChaptersPresent fetched,
                   ChaptersRemaining := ChaptersRemaining fetched,
                   Chapters := Chapters fetched,
                   HouseholdID := HouseholdID fetched\<rparr>"
    by (cases r1) (auto simp: Refresh_def)
  from refreshTonie_Ok[OF g[unfolded r(1)]] obtain h resp refreshed where
    a: "household ct = Some h"
       "transport env (sent w)
                (get_request (jwtToken (handlers w rh))
                   (creativeTonie (Household.ID h) (CreativeTonie.ID ct))) = Inr resp"
       "StatusCode resp = 200" "decode_CreativeTonie env (Body resp) = Inr refreshed"
       "fetched = refreshed\<lparr>household := household ct, requestHandler := Some rh\<rparr>"
       "w1 = w\<lparr>sent := sent w @ [get_request (jwtToken (handlers w rh))
                   (creativeTonie (Household.ID h) (CreativeTonie.ID ct))]\<rparr>"
    by auto
  have e: "ct' = refreshed\<lparr>household := household ct, requestHandler := requestHandler ct\<rparr>"
    unfolding c a(5) by (cases ct; cases refreshed) simp
  have f: "CreativeTonie.ID ct' = CreativeTonie.ID refreshed
         \<and> CreativeTonie.Name ct' = CreativeTonie.Name refreshed
         \<and> Live ct' = Live refreshed
         \<and> Private ct' = Private refreshed
         \<and> ImageURL ct' = ImageURL refreshed
         \<and> TranscodingErrors ct' = TranscodingErrors refreshed
         \<and> CreativeTonie.Transcoding ct' = CreativeTonie.Transcoding refreshed
         \<and> SecondsPresent ct' = SecondsPresent refreshed
         \<and> SecondsRemaining ct' = SecondsRemaining refreshed
         \<and> ChaptersPresent ct' = ChaptersPresent refreshed
         \<and> ChaptersRemaining ct' = ChaptersRemaining refreshed
         \<and> Chapters ct' = Chapters refreshed
         \<and> HouseholdID ct' = HouseholdID refreshed
         \<and> household ct' = household ct
         \<and> requestHandler ct' = requestHandler ct"
    by (simp add: e)
  have hw: "handlers w' = handlers w"
    by (simp add: r(2) a(6))
  from rh a(1-4) f e hw show ?thesis
    by (intro exI[of _ rh] exI[of _ h] exI[of _ resp] exI[of _ refreshed]) simp
qed

theorem Refresh_overwrites_in_place_witness:
  "fst (Refresh example_env example_tonie logged_in_world) = Ok ()
   \<and> CreativeTonie.Name (fst (snd (Refresh example_env example_tonie logged_in_world))) = ''Fresh''
   \<and> elems (Chapters (fst (snd (Refresh example_env example_tonie logged_in_world)))) =
        [\<lparr>Chapter.ID = ''c9'', File = [], Title = ''New'', Seconds = 0, Transcoding = False\<rparr>]
   \<and> household (fst (snd (Refresh example_env example_tonie logged_in_world)))
        = household example_tonie
   \<and> requestHandler (fst (snd (Refresh example_env example_tonie logged_in_world)))
        = requestHandler example_tonie"
proof -
  let ?r = "Refresh example_env example_tonie logged_in_world"
  have h: "?r = (Ok (), fst (snd ?r), snd (snd ?r))"
    by (simp add: example_Refresh)
  from Refresh_overwrites_in_place[OF h]
  have "household (fst (snd ?r)) = household example_tonie
        \<and> requestHandler (fst (snd ?r)) = requestHandler example_tonie"
    by auto
  moreover have "fst ?r = Ok ()"
    "CreativeTonie.Name (fst (snd ?r)) = ''Fresh''"
    "elems (Chapters (fst (snd ?r))) =
        [\<lparr>Chapter.ID = ''c9'', File = [], Title = ''New'', Seconds = 0, Transcoding = False\<rparr>]"
    by (simp_all add: example_Refresh example_refreshed_def)
  ultimately show ?thesis
    by simp
qed

text \<open>
  C3, as the code has it. The token of a client is written by each of its logins
  that succeeds, and by nothing else. After any sequence of operations on the
  client and on Creative-Tonies, up to a panic, the stored token is the one the
  last granted login of the sequence was answered with, and the token held
  before if no login was granted. A \<^verbatim>\<open>Login\<close> that succeeds is a granted login: it
  stores the token decoded from its response. A \<^verbatim>\<open>Login\<close> that fails changes no
  handler and is not granted, and so does every other operation.
\<close>

theorem token_after_run:
  assumes "run env c ops w = (p, w')"
  shows "(\<exists>new. sent w' = sent w @ new
           \<and> jwtToken (handlers w' c) =
               (if granted env (sent w) new = [] then jwtToken (handlers w c)
                else Some (last (granted env (sent w) new))))
       \<and> (Client_Login env c username password w0 = (Ok (), w1) \<longrightarrow>
            (\<exists>resp token.
               transport env (sent w0)
                 (login_request \<lparr>Login.Email = username, Password = password\<rparr>) = Inr resp
             \<and> StatusCode resp = 200
             \<and> decode_JWTToken env (Body resp) = Inr token
             \<and> jwtToken (handlers w1 c) = Some token
             \<and> granted env (sent w0) (drop (length (sent w0)) (sent w1)) = [token]))
       \<and> (Client_Login env c username password w0 = (r, w1) \<and> r \<noteq> Ok () \<longrightarrow>
            handlers w1 = handlers w0
            \<and> granted env (sent w0) (drop (length (sent w0)) (sent w1)) = [])
       \<and> ((\<forall>u pw. opn \<noteq> OpLogin u pw) \<and> exec_op env c opn w0 = (q, w1) \<longrightarrow>
            handlers w1 = handlers w0
            \<and> granted env (sent w0) (drop (length (sent w0)) (sent w1)) = [])"
proof (intro conjI impI)
  from run_effect[OF assms] obtain new where n: "sent w' = sent w @ new"
    and t: "jwtToken (handlers w' c) =
              stored_after (jwtToken (handlers w c)) (granted env (sent w) new)"
    unfolding effect_def by auto
  from t have "jwtToken (handlers w' c) =
               (if granted env (sent w) new = [] then jwtToken (handlers w c)
                else Some (last (granted env (sent w) new)))"
    by (simp only: stored_after_def)
  with n show "\<exists>new. sent w' = sent w @ new
           \<and> jwtToken (handlers w' c) =
               (if granted env (sent w) new = [] then jwtToken (handlers w c)
                else Some (last (granted env (sent w) new)))"
    by (intro exI[of _ new] conjI)
next
  assume "Client_Login env c username password w0 = (Ok (), w1)"
  then have "login env c \<lparr>Login.Email = username, Password = password\<rparr> w0 = (Ok (), w1)"
    by (simp add: Client_Login_def)
  then show "\<exists>resp token.
               transport env (sent w0)
                 (login_request \<lparr>Login.Email = username, Password = password\<rparr>) = Inr resp
             \<and> StatusCode resp = 200
             \<and> decode_JWTToken env (Body resp) = Inr token
             \<and> jwtToken (handlers w1 c) = Some token
             \<and> granted env (sent w0) (drop (length (sent w0)) (sent w1)) = [token]"
    by (rule login_Ok_granted)
next
  assume a: "Client_Login env c username password w0 = (r, w1) \<and> r \<noteq> Ok ()"
  then have "login env c \<lparr>Login.Email = username, Password = password\<rparr> w0 = (r, w1)"
    by (simp add: Client_Login_def)
  from login_failed[OF this] a
  show "handlers w1 = handlers w0"
    and "granted env (sent w0) (drop (length (sent w0)) (sent w1)) = []"
    by simp_all
next
  assume a: "(\<forall>u pw. opn \<noteq> OpLogin u pw) \<and> exec_op env c opn w0 = (q, w1)"
  then obtain rh where "quiet rh w0 w1"
    using exec_op_other_quiet[of opn env c w0 q w1] by auto
  from quiet_handlers_granted[OF this]
  show "handlers w1 = handlers w0"
    and "granted env (sent w0) (drop (length (sent w0)) (sent w1)) = []"
    by simp_all
qed

theorem token_after_run_witness:
  "run example_env 0 [OpLogin ''a@b.com'' ''pw'', OpLogin ''a@b.com'' ''pw''] example_world =
     (False,
      \<lparr>handlers = (\<lambda>rh. \<lparr>jwtToken = (if rh = 0 then Some example_token_2 else None)\<rparr>),
       sent = [login_request \<lparr>Login.Email = ''a@b.com'', Password = ''pw''\<rparr>,
               login_request \<lparr>Login.Email = ''a@b.com'', Password = ''pw''\<rparr>]\<rparr>)
   \<and> granted example_env []
        [login_request \<lparr>Login.Email = ''a@b.com'', Password = ''pw''\<rparr>,
         login_request \<lparr>Login.Email = ''a@b.com'', Password = ''pw''\<rparr>]
        = [example_token_1, example_token_2]
   \<and> (\<exists>new.
         sent \<lparr>handlers = (\<lambda>rh. \<lparr>jwtToken = (if rh = 0 then Some example_token_2 else None)\<rparr>),
               sent = [login_request \<lparr>Login.Email = ''a@b.com'', Password = ''pw''\<rparr>,
                       login_request \<lparr>Login.Email = ''a@b.com'', Password = ''pw''\<rparr>]\<rparr>
           = sent example_world @ new
         \<and> jwtToken (handlers
               \<lparr>handlers = (\<lambda>rh. \<lparr>jwtToken = (if rh = 0 then Some example_token_2 else None)\<rparr>),
                sent = [login_request \<lparr>Login.Email = ''a@b.com'', Password = ''pw''\<rparr>,
                        login_request \<lparr>Login.Email = ''a@b.com'', Password = ''pw''\<rparr>]\<rparr> 0) =
               (if granted example_env (sent example_world) new = []
                then jwtToken (handlers example_world 0)
                else Some (last (granted example_env (sent example_world) new))))
   \<and> Client_Login example_env 0 ''a@b.com'' ''pw'' example_world = (Ok (), logged_in_world)
   \<and> (\<exists>resp token.
         transport example_env (sent example_world)
           (login_request \<lparr>Login.Email = ''a@b.com'', Password = ''pw''\<rparr>) = Inr resp
       \<and> StatusCode resp = 200
       \<and> decode_JWTToken example_env (Body resp) = Inr token
       \<and> jwtToken (handlers logged_in_world 0) = Some token
       \<and> granted example_env (sent example_world)
            (drop (length (sent example_world)) (sent logged_in_world)) = [token])"
proof -
  have g: "granted example_env []
        [login_request \<lparr>Login.Email = ''a@b.com'', Password = ''pw''\<rparr>,
         login_request \<lparr>Login.Email = ''a@b.com'', Password = ''pw''\<rparr>]
        = [example_token_1, example_token_2]"
    by (simp add: is_login_request_def login_request_def example_env_def example_transport_def
        token_body_1_def token_body_2_def)
  note t = token_after_run[OF example_two_logins, where ?w0.0 = example_world
      and ?w1.0 = logged_in_world and username = "''a@b.com''" and password = "''pw''"]
  from example_two_logins g t[THEN conjunct1] example_login
    t[THEN conjunct2, THEN conjunct1, THEN mp, OF example_login]
  show ?thesis
    by (intro conjI)
qed

text \<open>
  C3 as stated fails: two logins succeed on one client, the first is answered with
  the token \<^verbatim>\<open>abc123\<close>, and after the second the stored token is \<^verbatim>\<open>xyz789\<close>.
\<close>

theorem second_login_replaces_token:
  "Client_Login example_env 0 ''a@b.com'' ''pw'' example_world = (Ok (), logged_in_world)
   \<and> transport example_env (sent example_world)
        (login_request \<lparr>Login.Email = ''a@b.com'', Password = ''pw''\<rparr>)
        = Inr \<lparr>StatusCode = 200, Body = token_body_1\<rparr>
   \<and> decode_JWTToken example_env token_body_1 = Inr example_token_1
   \<and> fst (Client_Login example_env 0 ''a@b.com'' ''pw'' logged_in_world) = Ok ()
   \<and> jwtToken (handlers (snd (run example_env 0
          [OpLogin ''a@b.com'' ''pw'', OpLogin ''a@b.com'' ''pw''] example_world)) 0)
        = Some example_token_2
   \<and> example_token_2 \<noteq> example_token_1"
  by (simp add: example_login example_login_again example_two_logins)
    (simp add: example_env_def example_transport_def example_world_def login_request_def
      example_token_1_def example_token_2_def)

text \<open>
  C4, as the code has it. A login that succeeds was answered with status 200 and a
  body that decodes to a token, and that token is the stored one. From then on,
  whatever operations follow on the same client and on Creative-Tonies wired to
  it, as long as no later login is granted, every GET and every PATCH that is sent
  carries the header \<^verbatim>\<open>Authorization\<close> with \<^verbatim>\<open>Bearer\<close>, a space and exactly
  the access token of that token.
\<close>

theorem login_token_sent_verbatim:
  assumes "Client_Login env c username password w = (Ok (), w1)"
    and "run env c ops w1 = (p, w2)"
    and "\<forall>opn \<in> set ops. on_client c opn"
    and "granted env (sent w1) (drop (length (sent w1)) (sent w2)) = []"
  shows "\<exists>resp token.
           transport env (sent w)
             (login_request \<lparr>Login.Email = username, Password = password\<rparr>) = Inr resp
         \<and> StatusCode resp = 200
         \<and> decode_JWTToken env (Body resp) = Inr token
         \<and> jwtToken (handlers w1 c) = Some token
         \<and> AccessToken (the (jwtToken (handlers w1 c))) = AccessToken token
         \<and> (\<forall>q \<in> set (drop (length (sent w1)) (sent w2)).
               Method q = ''GET'' \<or> Method q = ''PATCH'' \<longrightarrow>
               map_of (Header q) ''Authorization'' = Some (''Bearer '' @ AccessToken token))"
proof -
  from assms(1) have "login env c \<lparr>Login.Email = username, Password = password\<rparr> w = (Ok (), w1)"
    by (simp add: Client_Login_def)
  from login_Ok[OF this] obtain resp token where
    l: "transport env (sent w)
          (login_request \<lparr>Login.Email = username, Password = password\<rparr>) = Inr resp"
       "StatusCode resp = 200" "decode_JWTToken env (Body resp) = Inr token"
       "jwtToken (handlers w1 c) = Some token"
    by auto
  from run_effect[OF assms(2)] obtain new where
    n: "sent w2 = sent w1 @ new"
    and h: "(\<forall>opn \<in> set ops. on_client c opn) \<and> granted env (sent w1) new = [] \<longrightarrow>
             (\<forall>q \<in> set new. Method q = ''GET'' \<or> Method q = ''PATCH'' \<longrightarrow>
                map_of (Header q) ''Authorization'' = auth_header (jwtToken (handlers w1 c)))"
    unfolding effect_def by auto
  from n have d: "drop (length (sent w1)) (sent w2) = new"
    by simp
  from h assms(3) assms(4)[unfolded d] have
    "\<forall>q \<in> set new. Method q = ''GET'' \<or> Method q = ''PATCH'' \<longrightarrow>
       map_of (Header q) ''Authorization'' = Some (''Bearer '' @ AccessToken token)"
    by (simp add: l(4) auth_header_def)
  with l d show ?thesis
    by (intro exI[of _ resp] exI[of _ token]) simp
qed

theorem login_token_sent_verbatim_witness:
  "Client_Login example_env 0 ''a@b.com'' ''pw'' example_world = (Ok (), logged_in_world)
   \<and> on_client 0 (OpCommit (example_tonie\<lparr>CreativeTonie.Name := ''Lion''\<rparr>))
   \<and> on_client 0 OpGetMe
   \<and> granted example_env (sent logged_in_world)
        (drop (length (sent logged_in_world))
           (sent (snd (run example_env 0
              [OpCommit (example_tonie\<lparr>CreativeTonie.Name := ''Lion''\<rparr>), OpGetMe]
              logged_in_world)))) = []
   \<and> (\<exists>resp token.
         transport example_env (sent example_world)
           (login_request \<lparr>Login.Email = ''a@b.com'', Password = ''pw''\<rparr>) = Inr resp
       \<and> StatusCode resp = 200
       \<and> decode_JWTToken example_env (Body resp) = Inr token
       \<and> jwtToken (handlers logged_in_world 0) = Some token
       \<and> AccessToken (the (jwtToken (handlers logged_in_world 0))) = AccessToken token
       \<and> (\<forall>q \<in> set (drop (length (sent logged_in_world))
                       (sent (snd (run example_env 0
                          [OpCommit (example_tonie\<lparr>CreativeTonie.Name := ''Lion''\<rparr>), OpGetMe]
                          logged_in_world)))).
             Method q = ''GET'' \<or> Method q = ''PATCH'' \<longrightarrow>
             map_of (Header q) ''Authorization'' = Some (''Bearer '' @ AccessToken token)))
   \<and> map_of (Header (get_request (Some example_token_1) me)) ''Authorization''
        = Some ''Bearer abc123''"
proof -
  let ?ops = "[OpCommit (example_tonie\<lparr>CreativeTonie.Name := ''Lion''\<rparr>), OpGetMe]"
  let ?r = "run example_env 0 ?ops logged_in_world"
  have h2: "?r = (fst ?r, snd ?r)"
    by simp
  have o: "on_client 0 (OpCommit (example_tonie\<lparr>CreativeTonie.Name := ''Lion''\<rparr>))"
    "on_client 0 OpGetMe"
    by (simp_all add: example_tonie_def)
  then have h3: "\<forall>opn \<in> set ?ops. on_client 0 opn"
    by simp
  have h4: "granted example_env (sent logged_in_world)
              (drop (length (sent logged_in_world)) (sent (snd ?r))) = []"
    by (simp add: example_Commit_then_GetMe del: run.simps)
      (simp add: is_login_request_def patch_request_def get_request_def)
  have b: "map_of (Header (get_request (Some example_token_1) me)) ''Authorization''
        = Some ''Bearer abc123''"
    by (simp add: get_request_def bearer_def example_token_1_def)
  from example_login o h4 login_token_sent_verbatim[OF example_login h2 h3 h4] b
  show ?thesis
    by (intro conjI)
qed

text \<open>
  C4 as stated fails: after a login answered with \<^verbatim>\<open>abc123\<close>, a second login
  is granted \<^verbatim>\<open>xyz789\<close>, and the GET that follows carries \<^verbatim>\<open>Bearer xyz789\<close>.
\<close>

theorem later_login_changes_bearer:
  "Client_Login example_env 0 ''a@b.com'' ''pw'' example_world = (Ok (), logged_in_world)
   \<and> transport example_env (sent example_world)
        (login_request \<lparr>Login.Email = ''a@b.com'', Password = ''pw''\<rparr>)
        = Inr \<lparr>StatusCode = 200, Body = token_body_1\<rparr>
   \<and> decode_JWTToken example_env token_body_1 = Inr example_token_1
   \<and> AccessToken example_token_1 = ''abc123''
   \<and> sent (snd (run example_env 0 [OpLogin ''a@b.com'' ''pw'', OpGetMe] logged_in_world)) =
        [login_request \<lparr>Login.Email = ''a@b.com'', Password = ''pw''\<rparr>,
         login_request \<lparr>Login.Email = ''a@b.com'', Password = ''pw''\<rparr>,
         get_request (Some example_token_2) me]
   \<and> map_of (Header (get_request (Some example_token_2) me)) ''Authorization''
        = Some ''Bearer xyz789''
   \<and> ''Bearer xyz789'' \<noteq> ''Bearer '' @ AccessToken example_token_1"
  by (simp add: example_login example_login_then_GetMe del: run.simps)
    (simp add: example_env_def example_transport_def example_world_def login_request_def
      example_token_1_def example_token_2_def get_request_def bearer_def)

end
